theory Spec2Isabelle
  imports Complex_Main
begin

section \<open>Numbers and strings\<close>

text \<open>
  The pipeline computes in Python floats (and Decimal fields converted with \<open>float\<close>).
  They are modelled as exact real numbers: every arithmetic operation is the exact one, so
  binary rounding error is outside the model. The decimal rounding the code asks for
  explicitly (\<open>round(x, n)\<close>, and the format specs \<open>:.0f\<close>, \<open>:.1f\<close>, \<open>:.3f\<close>) is
  modelled: Python rounds to the nearest multiple of \<open>10^-n\<close>, ties to the even neighbour.
\<close>

definition round_half_even :: "real \<Rightarrow> int" where
  "round_half_even x =
     (let f = \<lfloor>x\<rfloor>; d = x - of_int f
      in if d < 1 / 2 then f
         else if 1 / 2 < d then f + 1
         else if even f then f else f + 1)"

definition py_round :: "real \<Rightarrow> nat \<Rightarrow> real" where
  "py_round x n = of_int (round_half_even (x * 10 ^ n)) / 10 ^ n"

definition digit_char :: "nat \<Rightarrow> char" where
  "digit_char d = ''0123456789'' ! (d mod 10)"

fun dec_digits :: "nat \<Rightarrow> string" where
  "dec_digits n =
     (if n < 10 then [digit_char n] else dec_digits (n div 10) @ [digit_char (n mod 10)])"

declare dec_digits.simps [simp del]

definition zero_pad :: "nat \<Rightarrow> string \<Rightarrow> string" where
  "zero_pad w s = replicate (w - length s) (CHR ''0'') @ s"

text \<open>\<open>format(x, '.nf')\<close>: sign, integer digits, and \<open>n\<close> decimals after a point.\<close>

definition format_fixed :: "real \<Rightarrow> nat \<Rightarrow> string" where
  "format_fixed x n =
     (let q = nat (round_half_even (\<bar>x\<bar> * 10 ^ n));
          body = dec_digits (q div 10 ^ n)
                   @ (if n = 0 then [] else CHR ''.'' # zero_pad n (dec_digits (q mod 10 ^ n)))
      in if x < 0 then CHR ''-'' # body else body)"

text \<open>A Python slice \<open>xs[:k]\<close>; a negative \<open>k\<close> counts from the end.\<close>

definition py_slice_to :: "'a list \<Rightarrow> int \<Rightarrow> 'a list" where
  "py_slice_to xs k =
     (if 0 \<le> k then take (nat k) xs else take (length xs - nat (- k)) xs)"

text \<open>
  \<open>sorted(xs, key=k, reverse=True)\<close>: descending by key, and stable (Python keeps the
  original order of elements with equal keys also under \<open>reverse=True\<close>).
\<close>

definition sorted_reverse :: "('a \<Rightarrow> real) \<Rightarrow> 'a list \<Rightarrow> 'a list" where
  "sorted_reverse k xs = sort_key (\<lambda>x. - k x) xs"

text \<open>
  \<open>queryset.order_by('-field').first()\<close>: a row with the greatest value of the field,
  \<open>None\<close> on an empty result.
\<close>

fun first_desc :: "('a \<Rightarrow> int) \<Rightarrow> 'a list \<Rightarrow> 'a option" where
  "first_desc k [] = None"
| "first_desc k (x # xs) =
     (case first_desc k xs of
        None \<Rightarrow> Some x
      | Some y \<Rightarrow> if k x < k y then Some y else Some x)"

text \<open>Exceptions the pipeline raises. Every \<open>raise\<close> of the source is a \<open>ValueError\<close>
  with a message; a float division by zero raises \<open>ZeroDivisionError\<close>.\<close>

datatype error = ValueError string | ZeroDivisionError | PyException string

datatype json =
    JNull | JBool bool | JNum real | JStr string | JArr "json list" | JObj "(string \<times> json) list"

section \<open>Data model (apps/*/models.py)\<close>

text \<open>
  \<open>Transformer\<close> (apps/assets/models.py). \<open>rated_kw\<close> is the property
  \<open>float(self.rated_kva) * 0.9\<close>.
\<close>

record transformer =
  transformer_id :: nat
  transformer_name :: string
  rated_kva :: real
  max_load_pct :: int
  cooling_type :: string
  install_year :: int

definition rated_kw :: "transformer \<Rightarrow> real" where
  "rated_kw t = rated_kva t * (9 / 10)"

record switch =
  sw_id :: nat
  sw_name :: string

text \<open>\<open>TopologyLink\<close>; \<open>link_to\<close> is the related \<open>to_transformer\<close> row.\<close>

record topology_link =
  link_from :: nat
  link_to :: transformer
  max_transfer_kw :: real
  link_switch :: "switch option"
  is_active :: bool

text \<open>
  \<open>TransformerLoad\<close> (apps/telemetry): the fields the services read. Timestamps are
  whole minutes counted from a Monday 00:00, so that hour-of-day and day-of-week are
  \<open>(t div 60) mod 24\<close> and \<open>(t div 1440) mod 7\<close> (0 = Monday, as
  \<open>datetime.weekday()\<close>).
\<close>

record transformer_load =
  load_transformer :: nat
  timestamp :: int
  load_kw :: real
  load_pct :: real
  temp_c :: "real option"

record prediction =
  pred_timestamp :: int
  predicted_kw :: real
  predicted_pct :: real
  pred_confidence :: real

record load_forecast =
  forecast_transformer :: nat
  forecast_generated_at :: int
  forecast_horizon_hours :: nat
  predictions :: "prediction list"
  peak_predicted_kw :: real
  peak_predicted_pct :: real
  peak_time :: int

text \<open>
  \<open>RiskAssessment\<close> (apps/risk/models.py). \<open>risk_level\<close> is a CharField: \<open>None\<close>,
  the empty string, or a level name. The explanation text (\<open>reasons_json\<close>) is not
  modelled.
\<close>

record risk_assessment =
  assessment_transformer :: transformer
  assessment_forecast :: load_forecast
  time_window_start :: int
  time_window_end :: int
  risk_score :: real
  overload_pct :: real
  confidence :: real
  component_overload :: real
  component_thermal :: real
  component_cascading :: real
  risk_level :: "string option"

text \<open>
  The \<open>plan_json\<close> dict of a \<open>MitigationPlan\<close>. Each key is an optional field,
  \<open>None\<close> for a key that is absent (the narrator reads the dict with
  \<open>.get(key, default)\<close>); values have the types the simulator writes.
\<close>

record plan_data =
  from_transformer :: "nat option"
  from_transformer_name :: "string option"
  to_transformer :: "nat option"
  to_transformer_name :: "string option"
  transfer_kw :: "real option"
  switch_id :: "nat option option"
  switch_name :: "string option"
  link_capacity_kw :: "real option"
  risk_before :: "real option"
  risk_after :: "real option"
  risk_reduction :: "real option"
  expected_operations :: "nat option"
  load_before_pct :: "real option"
  load_after_pct :: "real option"

record mitigation_plan =
  plan_assessment :: risk_assessment
  plan_json :: plan_data
  expected_risk_after :: real
  expected_load_reduction_kw :: real
  executive_summary :: string
  operator_steps :: "json list"
  field_checklist :: "json list"
  rollback_steps :: "json list"
  assumptions :: "json list"
  llm_confidence :: real

text \<open>
  The stored state the services query: the \<open>TransformerLoad\<close>, \<open>TopologyLink\<close> and
  \<open>LoadForecast\<close> tables (rows in the order a query yields them) and the clock.
\<close>

record grid_state =
  loads :: "transformer_load list"
  links :: "topology_link list"
  forecasts :: "load_forecast list"
  now_year :: int

definition latest_load :: "grid_state \<Rightarrow> transformer \<Rightarrow> transformer_load option" where
  "latest_load st t =
     first_desc timestamp (filter (\<lambda>r. load_transformer r = transformer_id t) (loads st))"

definition latest_temp_reading :: "grid_state \<Rightarrow> transformer \<Rightarrow> transformer_load option" where
  "latest_temp_reading st t =
     first_desc timestamp
       (filter (\<lambda>r. load_transformer r = transformer_id t \<and> temp_c r \<noteq> None) (loads st))"

definition latest_forecast :: "grid_state \<Rightarrow> transformer \<Rightarrow> load_forecast option" where
  "latest_forecast st t =
     first_desc forecast_generated_at
       (filter (\<lambda>f. forecast_transformer f = transformer_id t) (forecasts st))"

definition outgoing_links :: "grid_state \<Rightarrow> transformer \<Rightarrow> topology_link list" where
  "outgoing_links st t =
     filter (\<lambda>l. link_from l = transformer_id t \<and> is_active l) (links st)"

section \<open>Risk scorer (apps/risk/services/risk_scorer.py, apps/risk/models.py)\<close>

text \<open>\<open>RiskScorer._calculate_overload_score\<close>.\<close>

definition calculate_overload_score :: "real \<Rightarrow> real" where
  "calculate_overload_score pct =
     (if pct \<le> 90 then 0
      else if pct \<le> 100 then 3 / 10 + (pct - 90) * (4 / 100)
      else min (7 / 10 + (pct - 100) * (15 / 1000)) 1)"

text \<open>
  The parts of \<open>RiskScorer._calculate_thermal_score\<close>: the \<open>if/elif\<close> chain on
  \<open>latest_temp\<close>, the age factor and the cooling factor.
\<close>

definition temp_score :: "real \<Rightarrow> real" where
  "temp_score latest_temp =
     (if latest_temp \<le> 25 then 0
      else if latest_temp \<le> 30 then (latest_temp - 25) * (6 / 100)
      else if latest_temp \<le> 35 then 3 / 10 + (latest_temp - 30) * (6 / 100)
      else if latest_temp \<le> 40 then 6 / 10 + (latest_temp - 35) * (6 / 100)
      else min (9 / 10 + (latest_temp - 40) * (2 / 100)) 1)"

definition age_factor :: "int \<Rightarrow> real" where
  "age_factor age = (if 25 < age then 13 / 10 else if 15 < age then 11 / 10 else 1)"

definition cooling_factor :: "string \<Rightarrow> real" where
  "cooling_factor c = (if c = ''ONAF'' then 8 / 10 else 1)"

text \<open>
  \<open>RiskScorer._calculate_thermal_score\<close>. \<open>latest_temp\<close> is the \<open>temp_c\<close> of the most
  recent reading that has one, \<open>None\<close> when there is no such reading. The guard is the
  source's \<open>if not latest_temp\<close>: Python's truth test, which holds for \<open>None\<close> and
  for the number \<open>0.0\<close> alike.
\<close>

definition calculate_thermal_score :: "grid_state \<Rightarrow> load_forecast \<Rightarrow> transformer \<Rightarrow> real" where
  "calculate_thermal_score st forecast t =
     (let latest_temp = (case latest_temp_reading st t of
                           None \<Rightarrow> None
                         | Some latest_reading \<Rightarrow> temp_c latest_reading)
      in case latest_temp of
           None \<Rightarrow> 2 / 10
         | Some T \<Rightarrow>
             if T = 0 then 2 / 10
             else min (temp_score T * age_factor (now_year st - install_year t)
                         * cooling_factor (cooling_type t)) 1)"

text \<open>\<open>RiskScorer._calculate_cascading_score\<close>.\<close>

definition neighbor_overloaded :: "grid_state \<Rightarrow> topology_link \<Rightarrow> bool" where
  "neighbor_overloaded st l =
     (case latest_load st (link_to l) of None \<Rightarrow> False | Some latest \<Rightarrow> 85 < load_pct latest)"

definition calculate_cascading_score :: "grid_state \<Rightarrow> transformer \<Rightarrow> real" where
  "calculate_cascading_score st t =
     (let outgoing = outgoing_links st t
      in if outgoing = [] then 1 / 2
         else
           let total_neighbors = length outgoing;
               neighbors_overloaded = length (filter (neighbor_overloaded st) outgoing)
           in if total_neighbors = 0 then 1 / 2
              else
                let overload_ratio = real neighbors_overloaded / real total_neighbors
                in if overload_ratio = 0 then 0
                   else if overload_ratio < 1 / 2 then 3 / 10
                   else 7 / 10)"

text \<open>\<open>RiskScorer._calculate_assessment_confidence\<close>.\<close>

definition calculate_assessment_confidence :: "load_forecast \<Rightarrow> real" where
  "calculate_assessment_confidence forecast =
     (if predictions forecast = [] then 1 / 2
      else py_round (sum_list (map pred_confidence (predictions forecast))
                       / real (length (predictions forecast))) 3)"

text \<open>\<open>RiskAssessment.save\<close>: the level is filled in only when none was given.\<close>

definition save_assessment :: "risk_assessment \<Rightarrow> risk_assessment" where
  "save_assessment a =
     (if risk_level a = None \<or> risk_level a = Some []
      then (let score = risk_score a
            in if score < 3 / 10 then a\<lparr>risk_level := Some ''LOW''\<rparr>
               else if score < 7 / 10 then a\<lparr>risk_level := Some ''MEDIUM''\<rparr>
               else a\<lparr>risk_level := Some ''HIGH''\<rparr>)
      else a)"

text \<open>
  \<open>RiskScorer.score_transformer\<close>. The assessment is built with the CharField default
  (the empty string) as level and then saved.
\<close>

definition weighted_score :: "real \<Rightarrow> real \<Rightarrow> real \<Rightarrow> real" where
  "weighted_score overload_score thermal_score cascading_score =
     6 / 10 * overload_score + 2 / 10 * thermal_score + 2 / 10 * cascading_score"

definition score_transformer ::
  "grid_state \<Rightarrow> transformer \<Rightarrow> load_forecast \<Rightarrow> error + risk_assessment" where
  "score_transformer st t forecast =
     (if predictions forecast = []
      then Inl (ValueError (''Forecast for '' @ transformer_name t @ '' has no predictions''))
      else
        let overload_score = calculate_overload_score (peak_predicted_pct forecast);
            thermal_score = calculate_thermal_score st forecast t;
            cascading_score = calculate_cascading_score st t;
            total_score = weighted_score overload_score thermal_score cascading_score
        in Inr (save_assessment
             \<lparr>assessment_transformer = t,
              assessment_forecast = forecast,
              time_window_start = pred_timestamp (hd (predictions forecast)),
              time_window_end = pred_timestamp (last (predictions forecast)),
              risk_score = py_round total_score 3,
              overload_pct = peak_predicted_pct forecast,
              confidence = calculate_assessment_confidence forecast,
              component_overload = py_round overload_score 3,
              component_thermal = py_round thermal_score 3,
              component_cascading = py_round cascading_score 3,
              risk_level = Some []\<rparr>))"

section \<open>Mitigation simulator (apps/planning/services/mitigation_simulator.py)\<close>

record simulator =
  safety_margin :: real
  max_transfer_pct :: real

definition default_simulator :: simulator where
  "default_simulator = \<lparr>safety_margin = 8 / 10, max_transfer_pct = 3 / 10\<rparr>"

text \<open>\<open>_calculate_overload_kw\<close>.\<close>

definition calculate_overload_kw :: "risk_assessment \<Rightarrow> real" where
  "calculate_overload_kw a =
     (let peak_kw = peak_predicted_kw (assessment_forecast a);
          safe_kw = rated_kw (assessment_transformer a)
                      * (real_of_int (max_load_pct (assessment_transformer a)) / 100);
          overload_kw = peak_kw - safe_kw
      in max 0 overload_kw)"

text \<open>\<open>_get_neighbors\<close>: one entry per active outgoing link, in query order.\<close>

definition get_neighbors :: "grid_state \<Rightarrow> transformer \<Rightarrow> (transformer \<times> topology_link) list" where
  "get_neighbors st t = map (\<lambda>l. (link_to l, l)) (outgoing_links st t)"

text \<open>\<open>_get_available_capacity\<close>.\<close>

definition get_available_capacity :: "grid_state \<Rightarrow> transformer \<Rightarrow> real" where
  "get_available_capacity st t =
     (let current_load_kw =
            (case latest_load st t of
               Some latest \<Rightarrow> load_kw latest
             | None \<Rightarrow>
                 (case latest_forecast st t of
                    Some forecast \<Rightarrow> peak_predicted_kw forecast
                  | None \<Rightarrow> rated_kw t * (7 / 10)));
          safe_capacity = rated_kw t * (real_of_int (max_load_pct t) / 100);
          available_kw = safe_capacity - current_load_kw
      in max 0 available_kw)"

text \<open>
  \<open>_simulate_transfer\<close>. The division by \<open>rated_kw\<close> is a float division: it raises
  \<open>ZeroDivisionError\<close> on a zero rating.
\<close>

definition simulate_transfer ::
  "grid_state \<Rightarrow> transformer \<Rightarrow> transformer \<Rightarrow> real \<Rightarrow> load_forecast \<Rightarrow> error + real" where
  "simulate_transfer st from_t to_t transfer forecast =
     (let new_peak_kw = peak_predicted_kw forecast - transfer
      in if rated_kw from_t = 0 then Inl ZeroDivisionError
         else
           let new_peak_pct = new_peak_kw / rated_kw from_t * 100;
               overload_score = calculate_overload_score new_peak_pct;
               thermal_score = calculate_thermal_score st forecast from_t;
               cascading_score = calculate_cascading_score st from_t;
               simulated_risk = weighted_score overload_score thermal_score cascading_score
           in Inr (py_round simulated_risk 3))"

text \<open>The amount line 90 computes: the least of the four limits.\<close>

definition transfer_amount ::
  "simulator \<Rightarrow> real \<Rightarrow> topology_link \<Rightarrow> real \<Rightarrow> load_forecast \<Rightarrow> real" where
  "transfer_amount sim overload_kw link available_kw forecast =
     (let max_transfer_by_link = max_transfer_kw link;
          max_transfer_by_capacity = available_kw * safety_margin sim;
          max_transfer_by_source = peak_predicted_kw forecast * max_transfer_pct sim
      in min overload_kw
           (min max_transfer_by_link (min max_transfer_by_capacity max_transfer_by_source)))"

definition switch_or :: "topology_link \<Rightarrow> string \<Rightarrow> string" where
  "switch_or link dflt = (case link_switch link of Some s \<Rightarrow> sw_name s | None \<Rightarrow> dflt)"

text \<open>The plan the loop body builds for one neighbour (lines 108 to 159).\<close>

definition build_plan ::
  "risk_assessment \<Rightarrow> transformer \<Rightarrow> topology_link \<Rightarrow> real \<Rightarrow> real \<Rightarrow> mitigation_plan" where
  "build_plan a neighbor link transfer simulated_risk =
     (let t = assessment_transformer a;
          forecast = assessment_forecast a;
          risk_reduction_v = risk_score a - simulated_risk
      in \<lparr>plan_assessment = a,
          plan_json =
            \<lparr>from_transformer = Some (transformer_id t),
             from_transformer_name = Some (transformer_name t),
             to_transformer = Some (transformer_id neighbor),
             to_transformer_name = Some (transformer_name neighbor),
             transfer_kw = Some (py_round transfer 2),
             switch_id = Some (map_option sw_id (link_switch link)),
             switch_name = Some (switch_or link ''direct''),
             link_capacity_kw = Some (max_transfer_kw link),
             risk_before = Some (risk_score a),
             risk_after = Some simulated_risk,
             risk_reduction = Some (py_round risk_reduction_v 3),
             expected_operations = Some (if link_switch link = None then 0 else 1),
             load_before_pct = Some (peak_predicted_pct forecast),
             load_after_pct =
               Some (py_round ((peak_predicted_kw forecast - transfer) / rated_kw t * 100) 2)\<rparr>,
          expected_risk_after = simulated_risk,
          expected_load_reduction_kw = transfer,
          executive_summary =
            ''Transfer '' @ format_fixed transfer 0 @ '' kW from '' @ transformer_name t
              @ '' to '' @ transformer_name neighbor,
          operator_steps =
            [JStr (''1. Verify '' @ switch_or link ''tie line'' @ '' is operational''),
             JStr (''2. Close '' @ switch_or link ''connection'' @ '' to transfer load''),
             JStr ''3. Monitor both transformers for 10 minutes'',
             JStr (''4. Verify '' @ transformer_name t @ '' load drops below 90%'')],
          field_checklist =
            [JStr ''PPE verification'',
             JStr ''Lockout/tagout procedures followed'',
             JStr ''Communication equipment functional''],
          rollback_steps =
            [JStr (''1. If voltage deviation > 1.05 pu, reopen '' @ switch_or link ''connection''),
             JStr ''2. Notify control room immediately'',
             JStr ''3. Record outcome in work order notes''],
          assumptions =
            [JStr (''Forecast error margin '' @ [CHR 0xB1] @ ''6%''),
             JStr ''Weather conditions remain stable'',
             JStr ''No concurrent outages in area''],
          llm_confidence = 0\<rparr>)"

text \<open>
  The loop over the neighbours (lines 75 to 161): a neighbour is skipped when its
  available capacity or the computed transfer is below 50 kW; an exception of the body
  ends the loop.
\<close>

fun candidate_plans ::
  "grid_state \<Rightarrow> simulator \<Rightarrow> risk_assessment \<Rightarrow> real
     \<Rightarrow> (transformer \<times> topology_link) list \<Rightarrow> error + mitigation_plan list" where
  "candidate_plans st sim a overload_kw [] = Inr []"
| "candidate_plans st sim a overload_kw ((neighbor, link) # rest) =
     (let available_kw = get_available_capacity st neighbor
      in if available_kw < 50 then candidate_plans st sim a overload_kw rest
         else
           let transfer = transfer_amount sim overload_kw link available_kw (assessment_forecast a)
           in if transfer < 50 then candidate_plans st sim a overload_kw rest
              else
                (case simulate_transfer st (assessment_transformer a) neighbor transfer
                        (assessment_forecast a) of
                   Inl e \<Rightarrow> Inl e
                 | Inr simulated_risk \<Rightarrow>
                     (case candidate_plans st sim a overload_kw rest of
                        Inl e \<Rightarrow> Inl e
                      | Inr plans \<Rightarrow>
                          Inr (build_plan a neighbor link transfer simulated_risk # plans))))"

text \<open>The sort key \<open>p.plan_json['risk_reduction']\<close>; the key is present on every plan
  \<open>build_plan\<close> makes.\<close>

definition risk_reduction_key :: "mitigation_plan \<Rightarrow> real" where
  "risk_reduction_key p = (case risk_reduction (plan_json p) of Some r \<Rightarrow> r | None \<Rightarrow> 0)"

definition not_overloaded_msg :: "transformer \<Rightarrow> string" where
  "not_overloaded_msg t = ''Transformer '' @ transformer_name t @ '' is not overloaded''"

definition no_neighbors_msg :: "transformer \<Rightarrow> string" where
  "no_neighbors_msg t =
     ''Transformer '' @ transformer_name t @ '' has no topology neighbors for load transfer''"

definition no_viable_plan_msg :: "transformer \<Rightarrow> string" where
  "no_viable_plan_msg t =
     ''No viable mitigation plans for '' @ transformer_name t @ '' (neighbors at capacity)''"

text \<open>\<open>MitigationSimulator.generate_plans\<close>.\<close>

definition generate_plans ::
  "grid_state \<Rightarrow> simulator \<Rightarrow> risk_assessment \<Rightarrow> int \<Rightarrow> error + mitigation_plan list" where
  "generate_plans st sim a max_plans =
     (let t = assessment_transformer a;
          overload_kw = calculate_overload_kw a
      in if overload_kw \<le> 0 then Inl (ValueError (not_overloaded_msg t))
         else
           let neighbors = get_neighbors st t
           in if neighbors = [] then Inl (ValueError (no_neighbors_msg t))
              else
                (case candidate_plans st sim a overload_kw neighbors of
                   Inl e \<Rightarrow> Inl e
                 | Inr candidates \<Rightarrow>
                     if candidates = [] then Inl (ValueError (no_viable_plan_msg t))
                     else Inr (py_slice_to (sorted_reverse risk_reduction_key candidates)
                                 max_plans)))"

section \<open>Forecaster (apps/forecasting/services/predictor.py)\<close>

definition hour_of :: "int \<Rightarrow> int" where
  "hour_of t = (t div 60) mod 24"

definition weekday_of :: "int \<Rightarrow> int" where
  "weekday_of t = (t div 1440) mod 7"

text \<open>\<open>np.mean\<close> and \<open>np.std\<close> (the population standard deviation) of a list.\<close>

definition np_mean :: "real list \<Rightarrow> real" where
  "np_mean xs = sum_list xs / real (length xs)"

definition np_std :: "real list \<Rightarrow> real" where
  "np_std xs = sqrt (np_mean (map (\<lambda>x. (x - np_mean xs)\<^sup>2) xs))"

text \<open>
  \<open>str(e)\<close> of an exception, and a count printed in a message.
\<close>

definition error_str :: "error \<Rightarrow> string" where
  "error_str e =
     (case e of ValueError m \<Rightarrow> m | ZeroDivisionError \<Rightarrow> ''float division by zero''
      | PyException m \<Rightarrow> m)"

text \<open>
  \<open>_calculate_hourly_patterns\<close>: the dict it returns has the keys 0 to 23; the model is
  the value stored under one key.
\<close>

definition hourly_pattern :: "transformer_load list \<Rightarrow> int \<Rightarrow> real" where
  "hourly_pattern historical_data hour =
     (let hour_data = map load_kw (filter (\<lambda>reading. hour_of (timestamp reading) = hour)
                                      historical_data)
      in if hour_data \<noteq> [] then np_mean hour_data
         else
           let all_loads = map load_kw historical_data
           in if all_loads \<noteq> [] then np_mean all_loads else 0)"

text \<open>\<open>hourly_patterns.get(hour_of_day, transformer.rated_kw * 0.7)\<close>.\<close>

definition hourly_patterns_get :: "transformer_load list \<Rightarrow> int \<Rightarrow> real \<Rightarrow> real" where
  "hourly_patterns_get historical_data hour dflt =
     (if 0 \<le> hour \<and> hour < 24 then hourly_pattern historical_data hour else dflt)"

text \<open>
  \<open>_estimate_temperature_factor\<close>. The list \<open>temps\<close> keeps the readings whose
  \<open>temp_c\<close> is true in Python's sense: present and not zero.
\<close>

definition truthy_temps :: "transformer_load list \<Rightarrow> real list" where
  "truthy_temps historical_data =
     concat (map (\<lambda>r. case temp_c r of None \<Rightarrow> [] | Some c \<Rightarrow> if c = 0 then [] else [c])
               historical_data)"

definition estimate_temperature_factor :: "int \<Rightarrow> transformer_load list \<Rightarrow> real" where
  "estimate_temperature_factor target_time historical_data =
     (let hour = hour_of target_time;
          temps = truthy_temps historical_data
      in if temps = []
         then (if 12 \<le> hour \<and> hour \<le> 18 then 11 / 10
               else if (6 \<le> hour \<and> hour \<le> 11) \<or> (19 \<le> hour \<and> hour \<le> 22) then 1
               else 95 / 100)
         else
           let avg_temp = np_mean temps;
               estimated_temp =
                 (if 12 \<le> hour \<and> hour \<le> 16 then avg_temp + 3
                  else if 17 \<le> hour \<and> hour \<le> 20 then avg_temp + 1
                  else if 0 \<le> hour \<and> hour \<le> 6 then avg_temp - 3
                  else avg_temp)
           in if 25 < estimated_temp then 1 + (estimated_temp - 25) * (1 / 100) else 1)"

text \<open>\<open>_calculate_confidence\<close>.\<close>

definition calculate_confidence :: "int \<Rightarrow> transformer_load list \<Rightarrow> real" where
  "calculate_confidence hour_of_day historical_data =
     (let hour_loads = map load_kw (filter (\<lambda>reading. hour_of (timestamp reading) = hour_of_day)
                                       historical_data)
      in if hour_loads = [] \<or> length hour_loads < 3 then 60 / 100
         else
           let mean_load = np_mean hour_loads;
               std_load = np_std hour_loads
           in if mean_load = 0 then 70 / 100
              else
                let cv = std_load / mean_load;
                    conf = max (70 / 100) (min (95 / 100) (1 - cv));
                    sample_size_factor = min 1 (real (length hour_loads) / 7)
                in conf * sample_size_factor)"

text \<open>
  The value of the local variable \<open>predicted_kw\<close> of \<open>LoadForecaster.forecast\<close> after
  the day-of-week and temperature adjustments (lines 83 to 91), before it is rounded
  into the prediction entry.
\<close>

definition predicted_kw_at :: "transformer \<Rightarrow> transformer_load list \<Rightarrow> int \<Rightarrow> real" where
  "predicted_kw_at t historical_data target_time =
     (let hour_of_day = hour_of target_time;
          day_of_week = weekday_of target_time;
          base = hourly_patterns_get historical_data hour_of_day (rated_kw t * (7 / 10));
          adjusted = (if day_of_week = 5 \<or> day_of_week = 6 then base * (85 / 100) else base);
          temp_factor = estimate_temperature_factor target_time historical_data
      in adjusted * temp_factor)"

text \<open>
  The loop state of \<open>forecast\<close>: the entries so far and the running peak.
\<close>

record forecast_acc =
  acc_predictions :: "prediction list"
  acc_peak_kw :: real
  acc_peak_time :: int
  acc_peak_pct :: real

definition forecast_step ::
  "transformer \<Rightarrow> transformer_load list \<Rightarrow> int \<Rightarrow> forecast_acc \<Rightarrow> nat \<Rightarrow> forecast_acc" where
  "forecast_step t historical_data now acc hour_offset =
     (let target_time = now + 60 * int hour_offset;
          kw = predicted_kw_at t historical_data target_time;
          conf = calculate_confidence (hour_of target_time) historical_data;
          pct = kw / rated_kw t * 100;
          entry = \<lparr>pred_timestamp = target_time, predicted_kw = py_round kw 2,
                   predicted_pct = py_round pct 2, pred_confidence = py_round conf 3\<rparr>
      in if acc_peak_kw acc < kw
         then \<lparr>acc_predictions = acc_predictions acc @ [entry], acc_peak_kw = kw,
               acc_peak_time = target_time, acc_peak_pct = pct\<rparr>
         else acc\<lparr>acc_predictions := acc_predictions acc @ [entry]\<rparr>)"

text \<open>
  The readings \<open>forecast\<close> selects: those of the unit from the cutoff on, by timestamp.
\<close>

definition historical_data_of :: "grid_state \<Rightarrow> nat \<Rightarrow> int \<Rightarrow> transformer \<Rightarrow> transformer_load list" where
  "historical_data_of st lookback_days now t =
     sort_key timestamp
       (filter (\<lambda>r. load_transformer r = transformer_id t
                     \<and> now - 1440 * int lookback_days \<le> timestamp r) (loads st))"

text \<open>
  \<open>LoadForecaster.forecast\<close>. The percentages divide by \<open>rated_kw\<close>; on a zero rating
  numpy yields a non-finite float and no exception, a value the model has no
  counterpart for (the division of HOL gives 0 there).
\<close>

definition forecast ::
  "grid_state \<Rightarrow> nat \<Rightarrow> int \<Rightarrow> transformer \<Rightarrow> nat \<Rightarrow> error + load_forecast" where
  "forecast st lookback_days now t hours_ahead =
     (let historical_data = historical_data_of st lookback_days now t
      in if length historical_data < 24
         then Inl (ValueError (''Insufficient data for '' @ transformer_name t
                      @ ''. Need at least 24 hours, have ''
                      @ dec_digits (length historical_data)))
         else
           let acc = foldl (forecast_step t historical_data now)
                       \<lparr>acc_predictions = [], acc_peak_kw = 0, acc_peak_time = now,
                        acc_peak_pct = 0\<rparr>
                       [0..<hours_ahead]
           in Inr \<lparr>forecast_transformer = transformer_id t,
                   forecast_generated_at = now,
                   forecast_horizon_hours = hours_ahead,
                   predictions = acc_predictions acc,
                   peak_predicted_kw = py_round (acc_peak_kw acc) 2,
                   peak_predicted_pct = py_round (acc_peak_pct acc) 2,
                   peak_time = acc_peak_time acc\<rparr>)"

section \<open>Bulk stages\<close>

text \<open>
  The result dict of a bulk stage. A failure record holds the unit and \<open>str(e)\<close>.
\<close>

record ('u, 'r) bulk_result =
  successful :: "'r list"
  failed :: "('u \<times> string) list"
  total_attempted :: nat
  success_count :: nat
  failure_count :: nat

text \<open>
  The body of the \<open>try\<close> of \<open>BulkForecaster.forecast_all_transformers\<close> for one unit:
  the forecast, and with \<open>save\<close> set the call \<open>forecast.save()\<close>, which is inside the
  \<open>try\<close> as well. What the store does with a row is not code of the repository; it is
  the parameter \<open>save_forecast\<close>: for the forecast of a unit, \<open>None\<close> when the row is
  written and the exception otherwise (a value that does not fit its column, for one).
  It takes the unit besides the forecast because of one case the forecast record cannot
  show: for a unit of zero rating the percentages of the source are non-finite floats
  (see \<open>forecast\<close>), a row that a store refuses.
\<close>

definition forecast_unit ::
  "(transformer \<Rightarrow> load_forecast \<Rightarrow> error option) \<Rightarrow> nat \<Rightarrow> nat \<Rightarrow> int \<Rightarrow> bool
     \<Rightarrow> grid_state \<Rightarrow> transformer \<Rightarrow> error + load_forecast" where
  "forecast_unit save_forecast lookback_days hours_ahead now save st t =
     (case forecast st lookback_days now t hours_ahead of
        Inl e \<Rightarrow> Inl e
      | Inr f \<Rightarrow>
          if save
          then (case save_forecast t f of Some e \<Rightarrow> Inl e | None \<Rightarrow> Inr f)
          else Inr f)"

text \<open>
  The loop of \<open>forecast_all_transformers\<close>, with its \<open>try/except\<close>: the state is the
  store (a saved forecast becomes a row of it) and the two result lists. The clock is
  read once for the batch.
\<close>

fun forecast_loop ::
  "(transformer \<Rightarrow> load_forecast \<Rightarrow> error option) \<Rightarrow> nat \<Rightarrow> nat \<Rightarrow> int \<Rightarrow> bool
     \<Rightarrow> grid_state \<Rightarrow> transformer list
     \<Rightarrow> load_forecast list \<Rightarrow> (transformer \<times> string) list
     \<Rightarrow> grid_state \<times> load_forecast list \<times> (transformer \<times> string) list" where
  "forecast_loop save_forecast lookback_days hours_ahead now save st [] succ fail =
     (st, succ, fail)"
| "forecast_loop save_forecast lookback_days hours_ahead now save st (t # ts) succ fail =
     (case forecast_unit save_forecast lookback_days hours_ahead now save st t of
        Inr f \<Rightarrow>
          forecast_loop save_forecast lookback_days hours_ahead now save
            (if save then st\<lparr>forecasts := forecasts st @ [f]\<rparr> else st) ts (succ @ [f]) fail
      | Inl e \<Rightarrow>
          forecast_loop save_forecast lookback_days hours_ahead now save st ts succ
            (fail @ [(t, error_str e)]))"

text \<open>
  \<open>forecast_all_transformers\<close>; \<open>active\<close> is the result of the query for all active
  transformers, used when no collection is passed.
\<close>

definition forecast_all_transformers ::
  "(transformer \<Rightarrow> load_forecast \<Rightarrow> error option) \<Rightarrow> nat \<Rightarrow> nat \<Rightarrow> int
     \<Rightarrow> grid_state \<Rightarrow> transformer list \<Rightarrow> transformer list option \<Rightarrow> bool
     \<Rightarrow> grid_state \<times> (transformer, load_forecast) bulk_result" where
  "forecast_all_transformers save_forecast lookback_days hours_ahead now st active transformers
       save =
     (let units = (case transformers of None \<Rightarrow> active | Some ts \<Rightarrow> ts);
          (st', succ, fail) =
            forecast_loop save_forecast lookback_days hours_ahead now save st units [] []
      in (st', \<lparr>successful = succ, failed = fail, total_attempted = length units,
                success_count = length succ, failure_count = length fail\<rparr>))"

text \<open>The body of the loop of \<open>BulkRiskScorer.score_all_transformers\<close>.\<close>

definition score_unit :: "grid_state \<Rightarrow> transformer \<Rightarrow> error + risk_assessment" where
  "score_unit st t =
     (case latest_forecast st t of
        None \<Rightarrow> Inl (ValueError (''No forecast available for '' @ transformer_name t))
      | Some f \<Rightarrow> score_transformer st t f)"

fun score_loop ::
  "grid_state \<Rightarrow> transformer list \<Rightarrow> risk_assessment list \<Rightarrow> (transformer \<times> string) list
     \<Rightarrow> risk_assessment list \<times> (transformer \<times> string) list" where
  "score_loop st [] succ fail = (succ, fail)"
| "score_loop st (t # ts) succ fail =
     (case score_unit st t of
        Inr a \<Rightarrow> score_loop st ts (succ @ [a]) fail
      | Inl e \<Rightarrow> score_loop st ts succ (fail @ [(t, error_str e)]))"

definition score_all_transformers ::
  "grid_state \<Rightarrow> transformer list \<Rightarrow> transformer list option
     \<Rightarrow> (transformer, risk_assessment) bulk_result" where
  "score_all_transformers st active transformers =
     (let units = (case transformers of None \<Rightarrow> active | Some ts \<Rightarrow> ts);
          (succ, fail) = score_loop st units [] []
      in \<lparr>successful = succ, failed = fail, total_attempted = length units,
          success_count = length succ, failure_count = length fail\<rparr>)"

section \<open>Plan narrator (apps/llm/services/claude_service.py)\<close>













text \<open>
  Two abbreviations for stating what the loop does: the test that makes it skip a
  neighbour, and the plan it builds for a neighbour it does not skip.
\<close>

definition skipped :: "grid_state \<Rightarrow> simulator \<Rightarrow> risk_assessment \<Rightarrow> transformer \<times> topology_link \<Rightarrow> bool" where
  "skipped st sim a nl =
     (get_available_capacity st (fst nl) < 50 \<or>
      transfer_amount sim (calculate_overload_kw a) (snd nl)
        (get_available_capacity st (fst nl)) (assessment_forecast a) < 50)"

definition plan_for :: "grid_state \<Rightarrow> simulator \<Rightarrow> risk_assessment \<Rightarrow> transformer \<times> topology_link \<Rightarrow> mitigation_plan" where
  "plan_for st sim a nl =
     (let transfer = transfer_amount sim (calculate_overload_kw a) (snd nl)
                       (get_available_capacity st (fst nl)) (assessment_forecast a)
      in build_plan a (fst nl) (snd nl) transfer
           (py_round (weighted_score
              (calculate_overload_score
                 ((peak_predicted_kw (assessment_forecast a) - transfer)
                    / rated_kw (assessment_transformer a) * 100))
              (calculate_thermal_score st (assessment_forecast a) (assessment_transformer a))
              (calculate_cascading_score st (assessment_transformer a))) 3))"

text \<open>
  The prediction entry the forecast loop appends for a target time, and the outcome of one
  unit of a bulk stage as an optional result and an optional failure record.
\<close>

definition prediction_entry :: "transformer \<Rightarrow> transformer_load list \<Rightarrow> int \<Rightarrow> prediction" where
  "prediction_entry t historical_data target_time =
     \<lparr>pred_timestamp = target_time,
      predicted_kw = py_round (predicted_kw_at t historical_data target_time) 2,
      predicted_pct =
        py_round (predicted_kw_at t historical_data target_time / rated_kw t * 100) 2,
      pred_confidence =
        py_round (calculate_confidence (hour_of target_time) historical_data) 3\<rparr>"

definition forecast_ok ::
  "(transformer \<Rightarrow> load_forecast \<Rightarrow> error option) \<Rightarrow> bool \<Rightarrow> grid_state \<Rightarrow> nat \<Rightarrow> nat
     \<Rightarrow> int \<Rightarrow> transformer \<Rightarrow> load_forecast option" where
  "forecast_ok save_forecast save st lookback_days hours_ahead now t =
     (case forecast_unit save_forecast lookback_days hours_ahead now save st t of
        Inr f \<Rightarrow> Some f | Inl e \<Rightarrow> None)"

definition forecast_failure ::
  "(transformer \<Rightarrow> load_forecast \<Rightarrow> error option) \<Rightarrow> bool \<Rightarrow> grid_state \<Rightarrow> nat \<Rightarrow> nat
     \<Rightarrow> int \<Rightarrow> transformer \<Rightarrow> (transformer \<times> string) option" where
  "forecast_failure save_forecast save st lookback_days hours_ahead now t =
     (case forecast_unit save_forecast lookback_days hours_ahead now save st t of
        Inr f \<Rightarrow> None | Inl e \<Rightarrow> Some (t, error_str e))"

definition score_ok :: "grid_state \<Rightarrow> transformer \<Rightarrow> risk_assessment option" where
  "score_ok st t = (case score_unit st t of Inr a \<Rightarrow> Some a | Inl e \<Rightarrow> None)"

definition score_failure :: "grid_state \<Rightarrow> transformer \<Rightarrow> (transformer \<times> string) option" where
  "score_failure st t =
     (case score_unit st t of Inr a \<Rightarrow> None | Inl e \<Rightarrow> Some (t, error_str e))"

section \<open>Example grids\<close>

text \<open>
  A source unit T-07 (500 kVA, so 450 kW, safe limit 90%) forecast to peak at 600 kW, and
  a neighbour T-09 whose latest reading is 250.03 kW, tied by a 300 kW link.
\<close>

definition ex_source :: transformer where
  "ex_source = \<lparr>transformer_id = 7, transformer_name = ''T-07'', rated_kva = 500,
                 max_load_pct = 90, cooling_type = ''ONAN'', install_year = 2015\<rparr>"

definition ex_neighbor :: transformer where
  "ex_neighbor = \<lparr>transformer_id = 9, transformer_name = ''T-09'', rated_kva = 500,
                   max_load_pct = 90, cooling_type = ''ONAN'', install_year = 2015\<rparr>"

definition ex_link :: topology_link where
  "ex_link = \<lparr>link_from = 7, link_to = ex_neighbor, max_transfer_kw = 300,
               link_switch = Some \<lparr>sw_id = 3, sw_name = ''SW-03''\<rparr>, is_active = True\<rparr>"

definition ex_forecast :: load_forecast where
  "ex_forecast = \<lparr>forecast_transformer = 7, forecast_generated_at = 0,
      forecast_horizon_hours = 1,
      predictions = [\<lparr>pred_timestamp = 0, predicted_kw = 600, predicted_pct = 13333 / 100,
                      pred_confidence = 9 / 10\<rparr>],
      peak_predicted_kw = 600, peak_predicted_pct = 13333 / 100, peak_time = 0\<rparr>"

definition ex_state :: grid_state where
  "ex_state = \<lparr>loads = [\<lparr>load_transformer = 9, timestamp = 0, load_kw = 25003 / 100,
                           load_pct = 5556 / 100, temp_c = None\<rparr>],
                links = [ex_link], forecasts = [ex_forecast], now_year = 2025\<rparr>"

definition ex_assessment :: risk_assessment where
  "ex_assessment = \<lparr>assessment_transformer = ex_source, assessment_forecast = ex_forecast,
      time_window_start = 0, time_window_end = 0, risk_score = 64 / 100,
      overload_pct = 13333 / 100, confidence = 9 / 10, component_overload = 1,
      component_thermal = 2 / 10, component_cascading = 0, risk_level = Some ''MEDIUM''\<rparr>"

definition ex_plan :: mitigation_plan where
  "ex_plan = build_plan ex_assessment ex_neighbor ex_link (15497 / 125) (64 / 125)"

text \<open>
  The same grid with a second neighbour T-10 (no reading, no forecast), tied by a 100 kW
  link that the topology query yields first.
\<close>

definition ex_neighbor2 :: transformer where
  "ex_neighbor2 = \<lparr>transformer_id = 10, transformer_name = ''T-10'', rated_kva = 500,
                    max_load_pct = 90, cooling_type = ''ONAN'', install_year = 2015\<rparr>"

definition ex_link2 :: topology_link where
  "ex_link2 = \<lparr>link_from = 7, link_to = ex_neighbor2, max_transfer_kw = 100,
                link_switch = None, is_active = True\<rparr>"

definition ex_state2 :: grid_state where
  "ex_state2 = \<lparr>loads = [\<lparr>load_transformer = 9, timestamp = 0, load_kw = 25003 / 100,
                            load_pct = 5556 / 100, temp_c = None\<rparr>],
                 links = [ex_link2, ex_link], forecasts = [ex_forecast], now_year = 2025\<rparr>"

definition ex_plan2 :: mitigation_plan where
  "ex_plan2 = build_plan ex_assessment ex_neighbor2 ex_link2 72 (77 / 125)"

text \<open>
  A very large unit: 20 000 000 kVA (18 000 000 kW, safe limit 90%), whose forecaster
  peak of 16 200 720 kW is 90.004% of its rating and is recorded as 90.00; its latest
  temperature reading is 28.37, and its tie to T-09 carries at most 50 kW.
\<close>

definition ex_big_source :: transformer where
  "ex_big_source = \<lparr>transformer_id = 1, transformer_name = ''T-01'', rated_kva = 20000000,
                     max_load_pct = 90, cooling_type = ''ONAN'', install_year = 2015\<rparr>"

definition ex_big_link :: topology_link where
  "ex_big_link = \<lparr>link_from = 1, link_to = ex_neighbor, max_transfer_kw = 50,
                   link_switch = None, is_active = True\<rparr>"

definition ex_big_forecast :: load_forecast where
  "ex_big_forecast = \<lparr>forecast_transformer = 1, forecast_generated_at = 0,
      forecast_horizon_hours = 1,
      predictions = [\<lparr>pred_timestamp = 0, predicted_kw = 16200720, predicted_pct = 90,
                      pred_confidence = 9 / 10\<rparr>],
      peak_predicted_kw = 16200720, peak_predicted_pct = 90, peak_time = 0\<rparr>"

definition ex_big_state :: grid_state where
  "ex_big_state =
     \<lparr>loads = [\<lparr>load_transformer = 1, timestamp = 0, load_kw = 16000000,
                 load_pct = 8889 / 100, temp_c = Some (2837 / 100)\<rparr>,
               \<lparr>load_transformer = 9, timestamp = 0, load_kw = 25003 / 100,
                 load_pct = 5556 / 100, temp_c = None\<rparr>],
      links = [ex_big_link], forecasts = [ex_big_forecast], now_year = 2025\<rparr>"

definition ex_big_assessment :: risk_assessment where
  "ex_big_assessment = \<lparr>assessment_transformer = ex_big_source,
      assessment_forecast = ex_big_forecast,
      time_window_start = 0, time_window_end = 0, risk_score = 40 / 1000,
      overload_pct = 90, confidence = 9 / 10, component_overload = 0,
      component_thermal = 202 / 1000, component_cascading = 0,
      risk_level = Some ''LOW''\<rparr>"

definition ex_big_plan :: mitigation_plan where
  "ex_big_plan = build_plan ex_big_assessment ex_neighbor ex_big_link 50 (221 / 1000)"

text \<open>
  Telemetry of T-07 for the forecaster: 24 readings of 100.01 kW without temperature,
  two minutes apart from Thursday 08:00 (minute 4800 of the week); the forecast is made
  on Friday 08:00 (minute 6240) with a lookback of 7 days.
\<close>

definition ex_history :: "transformer_load list" where
  "ex_history =
     map (\<lambda>k. \<lparr>load_transformer = 7, timestamp = 4800 + 2 * int k, load_kw = 10001 / 100,
                load_pct = 2222 / 100, temp_c = None\<rparr>) [0..<24]"

definition ex_history_state :: grid_state where
  "ex_history_state = \<lparr>loads = ex_history, links = [], forecasts = [], now_year = 2025\<rparr>"

definition ex_hist :: "transformer_load list" where
  "ex_hist = historical_data_of ex_history_state 7 6240 ex_source"

text \<open>
  The unit T-07 entered with a zero rating, and a store that refuses the forecast rows of
  zero-rated units and writes every other row.
\<close>

definition ex_zero_rated :: transformer where
  "ex_zero_rated = ex_source\<lparr>rated_kva := 0\<rparr>"

definition ex_store :: "transformer \<Rightarrow> load_forecast \<Rightarrow> error option" where
  "ex_store t f =
     (if rated_kw t = 0 then Some (PyException ''non-finite value in a numeric column'')
      else None)"



definition ex_cold_state :: grid_state where
  "ex_cold_state =
     \<lparr>loads = [\<lparr>load_transformer = 7, timestamp = 0, load_kw = 300, load_pct = 6667 / 100,
                 temp_c = Some 0\<rparr>],
      links = [ex_link], forecasts = [ex_forecast], now_year = 2025\<rparr>"

section \<open>Properties\<close>

subsection \<open>Rounding\<close>

lemma round_half_even_bounds:
  "x - 1 / 2 \<le> of_int (round_half_even x) \<and> of_int (round_half_even x) \<le> x + 1 / 2"
proof -
  have "of_int \<lfloor>x\<rfloor> \<le> x" and "x < of_int \<lfloor>x\<rfloor> + 1"
    by linarith+
  then show ?thesis
    unfolding round_half_even_def Let_def by (auto simp: field_simps; linarith)
qed

lemma round_half_even_of_int [simp]: "round_half_even (of_int k) = k"
  by (simp add: round_half_even_def)

lemma round_half_even_0 [simp]: "round_half_even 0 = 0"
  using round_half_even_of_int [of 0] by simp

lemma round_half_even_mono:
  assumes "x \<le> y"
  shows "round_half_even x \<le> round_half_even y"
proof (cases "\<lfloor>x\<rfloor> = \<lfloor>y\<rfloor>")
  case True
  with assms show ?thesis
    by (auto simp: round_half_even_def Let_def)
next
  case False
  with assms have lt: "\<lfloor>x\<rfloor> < \<lfloor>y\<rfloor>"
    using floor_mono [of x y] by linarith
  have "round_half_even x \<le> \<lfloor>x\<rfloor> + 1"
    by (simp add: round_half_even_def Let_def)
  moreover have "\<lfloor>y\<rfloor> \<le> round_half_even y"
    by (simp add: round_half_even_def Let_def)
  ultimately show ?thesis using lt by linarith
qed

lemma py_round_mono: "x \<le> y \<Longrightarrow> py_round x n \<le> py_round y n"
  by (simp add: py_round_def divide_right_mono round_half_even_mono mult_right_mono)

lemma py_round_upper: "py_round x n \<le> x + 1 / (2 * 10 ^ n)"
proof -
  have "of_int (round_half_even (x * 10 ^ n)) \<le> x * 10 ^ n + 1 / 2"
    using round_half_even_bounds [of "x * 10 ^ n"] by simp
  then have "of_int (round_half_even (x * 10 ^ n)) / 10 ^ n \<le> (x * 10 ^ n + 1 / 2) / 10 ^ n"
    by (simp add: divide_right_mono)
  then show ?thesis
    by (simp add: py_round_def add_divide_distrib)
qed

lemma py_round_lower: "x - 1 / (2 * 10 ^ n) \<le> py_round x n"
proof -
  have "x * 10 ^ n - 1 / 2 \<le> of_int (round_half_even (x * 10 ^ n))"
    using round_half_even_bounds [of "x * 10 ^ n"] by simp
  then have "(x * 10 ^ n - 1 / 2) / 10 ^ n \<le> of_int (round_half_even (x * 10 ^ n)) / 10 ^ n"
    by (simp add: divide_right_mono)
  then show ?thesis
    by (simp add: py_round_def diff_divide_distrib)
qed

lemma py_round_of_int [simp]: "py_round (of_int k) n = of_int k"
proof -
  have "(of_int k :: real) * 10 ^ n = of_int (k * 10 ^ n)"
    by simp
  then show ?thesis
    unfolding py_round_def by (simp only: round_half_even_of_int) simp
qed

lemma py_round_0 [simp]: "py_round 0 n = 0"
  using py_round_of_int [of 0 n] by simp

lemma py_round_50 [simp]: "py_round 50 n = 50"
  using py_round_of_int [of 50 n] by simp



subsection \<open>Lists\<close>

lemma py_slice_to_take: "\<exists>n. py_slice_to xs k = take n xs"
  by (auto simp: py_slice_to_def)


lemma filter_take_prefix:
  "filter P (take n xs) = take (length (filter P (take n xs))) (filter P xs)"
proof (induction xs arbitrary: n)
  case Nil
  then show ?case by simp
next
  case (Cons x xs)
  then show ?case by (cases n) auto
qed

lemma sorted_reverse_desc:
  "sorted_wrt (\<lambda>p q. k q \<le> k p) (sorted_reverse k xs)"
proof -
  have "sorted (map (\<lambda>x. - k x) (sorted_reverse k xs))"
    by (simp add: sorted_reverse_def)
  then show ?thesis
    by (simp add: sorted_map sorted_wrt_iff_nth_less)
qed

lemma sorted_reverse_stable:
  "filter (\<lambda>p. k p = v) (sorted_reverse k xs) = filter (\<lambda>p. k p = v) xs"
  using sort_key_stable [of "\<lambda>x. - k x" "- v" xs] by (simp add: sorted_reverse_def)

lemma set_sorted_reverse [simp]: "set (sorted_reverse k xs) = set xs"
  by (simp add: sorted_reverse_def)

lemma length_sorted_reverse [simp]: "length (sorted_reverse k xs) = length xs"
  by (simp add: sorted_reverse_def)

lemma sorted_reverse_Nil_iff [simp]: "sorted_reverse k xs = [] \<longleftrightarrow> xs = []"
  using length_sorted_reverse [of k xs] by (metis length_0_conv)

lemma map_filter_append:
  "List.map_filter f (xs @ ys) = List.map_filter f xs @ List.map_filter f ys"
  by (simp add: List.map_filter_def)

lemma np_mean_const:
  assumes "xs \<noteq> []" and "\<And>x. x \<in> set xs \<Longrightarrow> x = c"
  shows "np_mean xs = c"
proof -
  have "xs = replicate (length xs) c"
    using assms(2) by (simp add: replicate_length_same)
  then have "sum_list xs = real (length xs) * c"
    by (metis sum_list_replicate)
  with assms(1) show ?thesis
    by (simp add: np_mean_def)
qed

subsection \<open>Risk scorer\<close>

lemma overload_score_mono:
  "p \<le> q \<Longrightarrow> calculate_overload_score p \<le> calculate_overload_score q"
  unfolding calculate_overload_score_def min_def by (auto simp: field_simps)

text \<open>
  C3. The overload component as a function of \<open>peak_pct\<close>: 0 up to 90; on (90, 100] the
  line from 0.30 at 90 to 0.70 at 100; on (100, 120] the line from 0.70 at 100 to 1.00 at
  120; 1.0 above 120. In particular it is 0.70 at 100 and 1.0 at 120.
\<close>

theorem overload_score_piecewise:
  "calculate_overload_score p =
     (if p \<le> 90 then 0
      else if p \<le> 100 then 3 / 10 + (p - 90) / (100 - 90) * (7 / 10 - 3 / 10)
      else if p \<le> 120 then 7 / 10 + (p - 100) / (120 - 100) * (1 - 7 / 10)
      else 1)
   \<and> calculate_overload_score 100 = 7 / 10
   \<and> calculate_overload_score 120 = 1"
  unfolding calculate_overload_score_def min_def by (auto simp: field_simps)

lemma weighted_score_mono:
  "x \<le> y \<Longrightarrow> weighted_score x th ca \<le> weighted_score y th ca"
  by (simp add: weighted_score_def)

lemma score_transformer_fields:
  assumes "score_transformer st t f = Inr a"
  shows "assessment_transformer a = t" "assessment_forecast a = f"
    "risk_score a = py_round (weighted_score (calculate_overload_score (peak_predicted_pct f))
        (calculate_thermal_score st f t) (calculate_cascading_score st t)) 3"
  using assms
  by (auto simp: score_transformer_def save_assessment_def Let_def split: if_splits)

text \<open>
  For every other reading the thermal component is what C6 says: the temperature score
  times the age and cooling factors, clamped to 1, and 0.20 without a reading.
\<close>

lemma thermal_score_cases:
  "calculate_thermal_score st f t =
     (case latest_temp_reading st t of
        None \<Rightarrow> 2 / 10
      | Some r \<Rightarrow>
          (case temp_c r of
             None \<Rightarrow> 2 / 10
           | Some T \<Rightarrow>
               if T = 0 then 2 / 10
               else min (temp_score T * age_factor (now_year st - install_year t)
                           * cooling_factor (cooling_type t)) 1))"
  by (simp add: calculate_thermal_score_def split: option.split)

lemma temp_score_points:
  "T \<le> 25 \<Longrightarrow> temp_score T = 0"
  "temp_score 30 = 3 / 10" "temp_score 35 = 6 / 10" "temp_score 40 = 9 / 10"
  "45 \<le> T \<Longrightarrow> temp_score T = 1"
  by (simp_all add: temp_score_def min_def field_simps)

text \<open>
  C7. For an assessment saved without an explicit level (\<open>None\<close> or the empty string),
  the stored level is LOW exactly when score < 0.30, MEDIUM exactly when
  0.30 \<le> score < 0.70, and HIGH exactly when score \<ge> 0.70; the score is unchanged.
\<close>

theorem save_assessment_level:
  assumes "risk_level a = None \<or> risk_level a = Some []"
  shows "(risk_level (save_assessment a) = Some ''LOW'' \<longleftrightarrow> risk_score a < 3 / 10)
       \<and> (risk_level (save_assessment a) = Some ''MEDIUM''
            \<longleftrightarrow> 3 / 10 \<le> risk_score a \<and> risk_score a < 7 / 10)
       \<and> (risk_level (save_assessment a) = Some ''HIGH'' \<longleftrightarrow> 7 / 10 \<le> risk_score a)
       \<and> risk_score (save_assessment a) = risk_score a"
  using assms by (auto simp: save_assessment_def Let_def)

subsection \<open>Mitigation simulator\<close>

lemma candidate_plans_nonzero:
  assumes "rated_kw (assessment_transformer a) \<noteq> 0"
  shows "candidate_plans st sim a (calculate_overload_kw a) nbs =
           Inr (map (plan_for st sim a) (filter (\<lambda>nl. \<not> skipped st sim a nl) nbs))"
  using assms
  by (induction nbs) (auto simp: skipped_def plan_for_def simulate_transfer_def Let_def)

lemma candidate_plans_zero:
  assumes "rated_kw (assessment_transformer a) = 0"
  shows "candidate_plans st sim a (calculate_overload_kw a) nbs =
           (if filter (\<lambda>nl. \<not> skipped st sim a nl) nbs = [] then Inr [] else Inl ZeroDivisionError)"
  using assms
  by (induction nbs) (auto simp: skipped_def simulate_transfer_def Let_def)





lemma generate_plans_success:
  assumes "generate_plans st sim a max_plans = Inr plans"
  shows "rated_kw (assessment_transformer a) \<noteq> 0
       \<and> 0 < calculate_overload_kw a
       \<and> plans = py_slice_to
           (sorted_reverse risk_reduction_key
              (map (plan_for st sim a)
                 (filter (\<lambda>nl. \<not> skipped st sim a nl)
                    (get_neighbors st (assessment_transformer a))))) max_plans"
proof (cases "rated_kw (assessment_transformer a) = 0")
  case True
  then show ?thesis
    using assms
    by (auto simp: generate_plans_def Let_def candidate_plans_zero split: if_splits)
next
  case False
  then show ?thesis
    using assms
    by (auto simp: generate_plans_def Let_def candidate_plans_nonzero split: if_splits)
qed

text \<open>
  C1, as the code has it. Every plan \<open>generate_plans\<close> returns belongs to a neighbour and
  link of the unit; with \<open>t\<close> the least of \<open>overload_kw\<close>, the link's
  \<open>max_transfer_kw\<close>, the neighbour's available capacity times \<open>safety_margin\<close> and the
  forecast peak times \<open>max_transfer_pct\<close>, the plan has 50 \<le> \<open>t\<close>, its
  \<open>expected_load_reduction_kw\<close> is \<open>t\<close>, and the \<open>transfer_kw\<close> recorded in
  \<open>plan_json\<close> is \<open>t\<close> rounded to 2 decimals: at least 50 and at most \<open>t\<close> + 0.005.
\<close>

theorem generate_plans_transfer_bounds:
  assumes "generate_plans st sim a max_plans = Inr plans" and "p \<in> set plans"
  shows "\<exists>neighbor link t.
           (neighbor, link) \<in> set (get_neighbors st (assessment_transformer a))
         \<and> to_transformer (plan_json p) = Some (transformer_id neighbor)
         \<and> link_capacity_kw (plan_json p) = Some (max_transfer_kw link)
         \<and> t = min (calculate_overload_kw a)
                 (min (max_transfer_kw link)
                    (min (get_available_capacity st neighbor * safety_margin sim)
                       (peak_predicted_kw (assessment_forecast a) * max_transfer_pct sim)))
         \<and> 50 \<le> t
         \<and> expected_load_reduction_kw p = t
         \<and> transfer_kw (plan_json p) = Some (py_round t 2)
         \<and> 50 \<le> py_round t 2
         \<and> py_round t 2 \<le> t + 1 / 200"
proof -
  let ?nbs = "get_neighbors st (assessment_transformer a)"
  obtain n where "plans = take n (sorted_reverse risk_reduction_key
      (map (plan_for st sim a) (filter (\<lambda>nl. \<not> skipped st sim a nl) ?nbs)))"
    using generate_plans_success [OF assms(1)] py_slice_to_take by metis
  with assms(2) have "p \<in> set (map (plan_for st sim a) (filter (\<lambda>nl. \<not> skipped st sim a nl) ?nbs))"
    by (metis in_set_takeD set_sorted_reverse)
  then obtain nl where nl: "nl \<in> set ?nbs" "\<not> skipped st sim a nl" "p = plan_for st sim a nl"
    by auto
  define t where "t = transfer_amount sim (calculate_overload_kw a) (snd nl)
        (get_available_capacity st (fst nl)) (assessment_forecast a)"
  have t50: "50 \<le> t"
    using nl(2) by (simp add: skipped_def t_def)
  have r50: "50 \<le> py_round t 2"
    using py_round_mono [OF t50, of 2] by simp
  have up: "py_round t 2 \<le> t + 1 / 200"
    using py_round_upper [of t 2] by simp
  have "(fst nl, snd nl) \<in> set ?nbs"
    using nl(1) by simp
  moreover have "to_transformer (plan_json p) = Some (transformer_id (fst nl))"
    "link_capacity_kw (plan_json p) = Some (max_transfer_kw (snd nl))"
    "expected_load_reduction_kw p = t"
    "transfer_kw (plan_json p) = Some (py_round t 2)"
    by (simp_all add: nl(3) plan_for_def build_plan_def Let_def t_def)
  moreover have "t = min (calculate_overload_kw a)
                 (min (max_transfer_kw (snd nl))
                    (min (get_available_capacity st (fst nl) * safety_margin sim)
                       (peak_predicted_kw (assessment_forecast a) * max_transfer_pct sim)))"
    by (simp add: t_def transfer_amount_def Let_def)
  ultimately show ?thesis
    using t50 r50 up by blast
qed

text \<open>
  What the ranking does for every \<open>max_plans\<close>: the returned list is in descending order
  of the recorded \<open>risk_reduction\<close>, and for each value of \<open>risk_reduction\<close> the
  returned plans with that value are an initial segment of the candidates with that
  value, in the order the links were iterated. For a \<open>max_plans\<close> that is not negative
  the list has at most \<open>max_plans\<close> plans.
\<close>

lemma generate_plans_ranked:
  assumes "generate_plans st sim a max_plans = Inr plans"
  shows "sorted_wrt (\<lambda>p q. risk_reduction_key q \<le> risk_reduction_key p) plans
       \<and> (0 \<le> max_plans \<longrightarrow> int (length plans) \<le> max_plans)
       \<and> (\<forall>v. \<exists>m. filter (\<lambda>p. risk_reduction_key p = v) plans
                 = take m (filter (\<lambda>p. risk_reduction_key p = v)
                     (map (plan_for st sim a)
                        (filter (\<lambda>nl. \<not> skipped st sim a nl)
                           (get_neighbors st (assessment_transformer a))))))"
proof -
  let ?cands = "map (plan_for st sim a)
      (filter (\<lambda>nl. \<not> skipped st sim a nl) (get_neighbors st (assessment_transformer a)))"
  let ?S = "sorted_reverse risk_reduction_key ?cands"
  have eq: "plans = py_slice_to ?S max_plans"
    using generate_plans_success [OF assms] by simp
  then obtain n where n: "plans = take n ?S"
    using py_slice_to_take by metis
  have 1: "sorted_wrt (\<lambda>p q. risk_reduction_key q \<le> risk_reduction_key p) plans"
    unfolding n by (rule sorted_wrt_take) (rule sorted_reverse_desc)
  have 2: "0 \<le> max_plans \<longrightarrow> int (length plans) \<le> max_plans"
    unfolding eq by (auto simp: py_slice_to_def)
  have 3: "\<exists>m. filter (\<lambda>p. risk_reduction_key p = v) plans
                 = take m (filter (\<lambda>p. risk_reduction_key p = v) ?cands)" for v
  proof -
    have "filter (\<lambda>p. risk_reduction_key p = v) plans
            = take (length (filter (\<lambda>p. risk_reduction_key p = v) (take n ?S)))
                (filter (\<lambda>p. risk_reduction_key p = v) ?S)"
      unfolding n by (rule filter_take_prefix)
    then show ?thesis
      by (metis sorted_reverse_stable)
  qed
  from 1 2 3 show ?thesis by blast
qed


subsection \<open>Forecaster\<close>

lemma forecast_step_predictions:
  "acc_predictions (forecast_step t hist now acc k)
     = acc_predictions acc @ [prediction_entry t hist (now + 60 * int k)]"
  by (simp add: forecast_step_def prediction_entry_def Let_def)

lemma foldl_forecast_step_predictions:
  "acc_predictions (foldl (forecast_step t hist now) acc ks)
     = acc_predictions acc @ map (\<lambda>k. prediction_entry t hist (now + 60 * int k)) ks"
  by (induction ks arbitrary: acc) (simp_all add: forecast_step_predictions)

lemma forecast_predictions:
  assumes "forecast st lookback_days now t hours_ahead = Inr f"
  shows "predictions f
           = map (\<lambda>k. prediction_entry t (historical_data_of st lookback_days now t)
                          (now + 60 * int k)) [0..<hours_ahead]"
  using assms
  by (auto simp: forecast_def Let_def foldl_forecast_step_predictions split: if_splits)

lemma temperature_factor_same_hour:
  "hour_of t1 = hour_of t2
   \<Longrightarrow> estimate_temperature_factor t1 hist = estimate_temperature_factor t2 hist"
  by (simp add: estimate_temperature_factor_def)

text \<open>
  C9, as the code has it. In one forecast, for an hour offset whose target time falls on
  Saturday or Sunday and one whose target time falls on a weekday with the same
  hour-of-day: the value of \<open>predicted_kw\<close> before rounding is exactly 0.85 times the
  weekday one; the two entries record each value rounded to 2 decimals, so the recorded
  weekend value differs from 0.85 times the recorded weekday value by at most 0.00925.
\<close>

theorem weekend_prediction_scaled:
  assumes f: "forecast st lookback_days now t hours_ahead = Inr f"
    and i: "i < hours_ahead" and j: "j < hours_ahead"
    and we: "weekday_of (now + 60 * int i) = 5 \<or> weekday_of (now + 60 * int i) = 6"
    and wd: "weekday_of (now + 60 * int j) \<noteq> 5 \<and> weekday_of (now + 60 * int j) \<noteq> 6"
    and hr: "hour_of (now + 60 * int i) = hour_of (now + 60 * int j)"
  shows "predicted_kw_at t (historical_data_of st lookback_days now t) (now + 60 * int i)
           = 85 / 100
               * predicted_kw_at t (historical_data_of st lookback_days now t) (now + 60 * int j)
       \<and> pred_timestamp (predictions f ! i) = now + 60 * int i
       \<and> pred_timestamp (predictions f ! j) = now + 60 * int j
       \<and> predicted_kw (predictions f ! i)
           = py_round (predicted_kw_at t (historical_data_of st lookback_days now t)
                         (now + 60 * int i)) 2
       \<and> predicted_kw (predictions f ! j)
           = py_round (predicted_kw_at t (historical_data_of st lookback_days now t)
                         (now + 60 * int j)) 2
       \<and> \<bar>predicted_kw (predictions f ! i) - 85 / 100 * predicted_kw (predictions f ! j)\<bar>
           \<le> 37 / 4000"
proof -
  define hist where "hist = historical_data_of st lookback_days now t"
  define a where "a = predicted_kw_at t hist (now + 60 * int i)"
  define b where "b = predicted_kw_at t hist (now + 60 * int j)"
  have eq: "a = 85 / 100 * b"
    unfolding a_def b_def
    using we wd hr temperature_factor_same_hour [OF hr, of hist]
    by (auto simp: predicted_kw_at_def Let_def)
  have ra: "py_round a 2 \<le> a + 1 / 200" "a - 1 / 200 \<le> py_round a 2"
    using py_round_upper [of a 2] py_round_lower [of a 2] by simp_all
  have rb: "py_round b 2 \<le> b + 1 / 200" "b - 1 / 200 \<le> py_round b 2"
    using py_round_upper [of b 2] py_round_lower [of b 2] by simp_all
  have close: "\<bar>py_round a 2 - 85 / 100 * py_round b 2\<bar> \<le> 37 / 4000"
    using ra rb eq by linarith
  have ps: "predictions f = map (\<lambda>k. prediction_entry t hist (now + 60 * int k)) [0..<hours_ahead]"
    using forecast_predictions [OF f] by (simp add: hist_def)
  have pi: "predictions f ! i = prediction_entry t hist (now + 60 * int i)"
    unfolding ps using i by simp
  have pj: "predictions f ! j = prediction_entry t hist (now + 60 * int j)"
    unfolding ps using j by simp
  have e: "pred_timestamp (predictions f ! i) = now + 60 * int i"
    "pred_timestamp (predictions f ! j) = now + 60 * int j"
    "predicted_kw (predictions f ! i) = py_round a 2"
    "predicted_kw (predictions f ! j) = py_round b 2"
    by (simp_all add: pi pj prediction_entry_def a_def b_def)
  show ?thesis
    using eq close e unfolding a_def b_def hist_def by (simp only: simp_thms)
qed

subsection \<open>Bulk stages\<close>

lemma forecast_frame:
  "loads st' = loads st \<Longrightarrow> forecast st' l now t h = forecast st l now t h"
  by (simp add: forecast_def historical_data_of_def)

lemma forecast_unit_frame:
  "loads st' = loads st
   \<Longrightarrow> forecast_unit sv l h now save st' t = forecast_unit sv l h now save st t"
  by (simp add: forecast_unit_def forecast_frame [of st' st])

lemma forecast_ok_frame:
  "loads st' = loads st \<Longrightarrow> forecast_ok sv save st' l h now = forecast_ok sv save st l h now"
  "loads st' = loads st
   \<Longrightarrow> forecast_failure sv save st' l h now = forecast_failure sv save st l h now"
  by (rule ext, simp add: forecast_ok_def forecast_failure_def forecast_unit_frame [of st' st])+

lemma forecast_loop_char:
  "\<exists>st'. loads st' = loads st
      \<and> forecast_loop sv l h now save st ts succ fail
         = (st', succ @ List.map_filter (forecast_ok sv save st l h now) ts,
                 fail @ List.map_filter (forecast_failure sv save st l h now) ts)"
proof (induction ts arbitrary: st succ fail)
  case Nil
  then show ?case by simp
next
  case (Cons t ts)
  show ?case
  proof (cases "forecast_unit sv l h now save st t")
    case (Inl e)
    have ok: "forecast_ok sv save st l h now t = None"
      and bad: "forecast_failure sv save st l h now t = Some (t, error_str e)"
      using Inl by (simp_all add: forecast_ok_def forecast_failure_def)
    have step: "forecast_loop sv l h now save st (t # ts) succ fail
                  = forecast_loop sv l h now save st ts succ (fail @ [(t, error_str e)])"
      using Inl by simp
    from Cons [of st succ "fail @ [(t, error_str e)]"] show ?thesis
      unfolding step by (simp add: ok bad)
  next
    case (Inr f)
    let ?st = "if save then st\<lparr>forecasts := forecasts st @ [f]\<rparr> else st"
    have l: "loads ?st = loads st" by simp
    have ok: "forecast_ok sv save st l h now t = Some f"
      and bad: "forecast_failure sv save st l h now t = None"
      using Inr by (simp_all add: forecast_ok_def forecast_failure_def)
    have step: "forecast_loop sv l h now save st (t # ts) succ fail
                  = forecast_loop sv l h now save ?st ts (succ @ [f]) fail"
      using Inr by simp
    from Cons [of ?st "succ @ [f]" fail] obtain st' where
      "loads st' = loads ?st"
      "forecast_loop sv l h now save ?st ts (succ @ [f]) fail
         = (st', (succ @ [f]) @ List.map_filter (forecast_ok sv save ?st l h now) ts,
                 fail @ List.map_filter (forecast_failure sv save ?st l h now) ts)"
      by blast
    then show ?thesis
      unfolding step forecast_ok_frame [OF l] using l by (simp add: ok bad)
  qed
qed

lemma score_loop_char:
  "score_loop st ts succ fail
     = (succ @ List.map_filter (score_ok st) ts, fail @ List.map_filter (score_failure st) ts)"
proof (induction ts arbitrary: succ fail)
  case Nil
  then show ?case by simp
next
  case (Cons t ts)
  show ?case
  proof (cases "score_unit st t")
    case (Inl e)
    then show ?thesis
      by (simp add: Cons score_ok_def score_failure_def)
  next
    case (Inr a)
    then show ?thesis
      by (simp add: Cons score_ok_def score_failure_def)
  qed
qed

lemma forecast_partition_length:
  "length (List.map_filter (forecast_ok sv save st l h now) ts)
     + length (List.map_filter (forecast_failure sv save st l h now) ts) = length ts"
  by (induction ts) (simp_all add: forecast_ok_def forecast_failure_def split: sum.split)

lemma score_partition_length:
  "length (List.map_filter (score_ok st) ts)
     + length (List.map_filter (score_failure st) ts) = length ts"
  by (induction ts) (simp_all add: score_ok_def score_failure_def split: sum.split)

text \<open>
  C8. Both bulk stages, on a collection \<open>units\<close> and for every behaviour of the store:
  \<open>successful\<close> holds, in order, the result of each unit whose computation (the body of
  the \<open>try\<close>: the forecast and its \<open>save()\<close>, or the lookup of the forecast and the
  scoring) returns, \<open>failed\<close> holds, in order, one record (unit, \<open>str(e)\<close>) for each
  unit whose computation raises, where each unit's computation is the one on the store as
  it was before the batch; so every unit is in exactly one of the two lists,
  \<open>total_attempted\<close> is the number of units and equals
  \<open>success_count + failure_count\<close>. Inserting a unit whose computation raises (in the
  forecast or in the save) anywhere in the collection leaves \<open>successful\<close> as it is and
  adds its one record to \<open>failed\<close> at its place.
\<close>

theorem bulk_stages_isolate_failures:
  "(case forecast_all_transformers sv l h now st active (Some units) save of
      (st', r) \<Rightarrow>
        successful r = List.map_filter (forecast_ok sv save st l h now) units
        \<and> failed r = List.map_filter (forecast_failure sv save st l h now) units
        \<and> total_attempted r = length units
        \<and> success_count r = length (successful r)
        \<and> failure_count r = length (failed r)
        \<and> success_count r + failure_count r = total_attempted r
        \<and> loads st' = loads st)
   \<and> (let r = score_all_transformers st active (Some units)
      in successful r = List.map_filter (score_ok st) units
         \<and> failed r = List.map_filter (score_failure st) units
         \<and> total_attempted r = length units
         \<and> success_count r = length (successful r)
         \<and> failure_count r = length (failed r)
         \<and> success_count r + failure_count r = total_attempted r)
   \<and> (score_unit st u = Inl e \<longrightarrow>
        successful (score_all_transformers st active (Some (xs @ u # ys)))
          = successful (score_all_transformers st active (Some (xs @ ys)))
        \<and> failed (score_all_transformers st active (Some (xs @ u # ys)))
          = failed (score_all_transformers st active (Some xs))
              @ (u, error_str e) # failed (score_all_transformers st active (Some ys)))
   \<and> (forecast_unit sv l h now save st u = Inl e \<longrightarrow>
        successful (snd (forecast_all_transformers sv l h now st active (Some (xs @ u # ys)) save))
          = successful (snd (forecast_all_transformers sv l h now st active (Some (xs @ ys)) save))
        \<and> failed (snd (forecast_all_transformers sv l h now st active (Some (xs @ u # ys)) save))
          = failed (snd (forecast_all_transformers sv l h now st active (Some xs) save))
              @ (u, error_str e)
              # failed (snd (forecast_all_transformers sv l h now st active (Some ys) save)))"
proof -
  have f: "\<And>ts. \<exists>st'. loads st' = loads st \<and>
       forecast_all_transformers sv l h now st active (Some ts) save
         = (st', \<lparr>successful = List.map_filter (forecast_ok sv save st l h now) ts,
                  failed = List.map_filter (forecast_failure sv save st l h now) ts,
                  total_attempted = length ts,
                  success_count = length (List.map_filter (forecast_ok sv save st l h now) ts),
                  failure_count =
                    length (List.map_filter (forecast_failure sv save st l h now) ts)\<rparr>)"
  proof -
    fix ts
    obtain st' where "loads st' = loads st"
      "forecast_loop sv l h now save st ts [] []
         = (st', [] @ List.map_filter (forecast_ok sv save st l h now) ts,
                 [] @ List.map_filter (forecast_failure sv save st l h now) ts)"
      using forecast_loop_char [of st sv l h now save ts "[]" "[]"] by blast
    then show "\<exists>st'. loads st' = loads st \<and>
       forecast_all_transformers sv l h now st active (Some ts) save
         = (st', \<lparr>successful = List.map_filter (forecast_ok sv save st l h now) ts,
                  failed = List.map_filter (forecast_failure sv save st l h now) ts,
                  total_attempted = length ts,
                  success_count = length (List.map_filter (forecast_ok sv save st l h now) ts),
                  failure_count =
                    length (List.map_filter (forecast_failure sv save st l h now) ts)\<rparr>)"
      by (simp add: forecast_all_transformers_def)
  qed
  have s: "\<And>ts. score_all_transformers st active (Some ts)
       = \<lparr>successful = List.map_filter (score_ok st) ts,
          failed = List.map_filter (score_failure st) ts,
          total_attempted = length ts,
          success_count = length (List.map_filter (score_ok st) ts),
          failure_count = length (List.map_filter (score_failure st) ts)\<rparr>"
    by (simp add: score_all_transformers_def score_loop_char)
  have 1: "(case forecast_all_transformers sv l h now st active (Some units) save of
      (st', r) \<Rightarrow>
        successful r = List.map_filter (forecast_ok sv save st l h now) units
        \<and> failed r = List.map_filter (forecast_failure sv save st l h now) units
        \<and> total_attempted r = length units
        \<and> success_count r = length (successful r)
        \<and> failure_count r = length (failed r)
        \<and> success_count r + failure_count r = total_attempted r
        \<and> loads st' = loads st)"
    using f [of units] forecast_partition_length [of sv save st l h now units] by auto
  have 2: "(let r = score_all_transformers st active (Some units)
      in successful r = List.map_filter (score_ok st) units
         \<and> failed r = List.map_filter (score_failure st) units
         \<and> total_attempted r = length units
         \<and> success_count r = length (successful r)
         \<and> failure_count r = length (failed r)
         \<and> success_count r + failure_count r = total_attempted r)"
    by (simp add: s score_partition_length)
  have 3: "score_unit st u = Inl e \<longrightarrow>
        successful (score_all_transformers st active (Some (xs @ u # ys)))
          = successful (score_all_transformers st active (Some (xs @ ys)))
        \<and> failed (score_all_transformers st active (Some (xs @ u # ys)))
          = failed (score_all_transformers st active (Some xs))
              @ (u, error_str e) # failed (score_all_transformers st active (Some ys))"
    by (simp add: s map_filter_append score_ok_def score_failure_def)
  have fs: "\<And>ts. successful (snd (forecast_all_transformers sv l h now st active (Some ts) save))
              = List.map_filter (forecast_ok sv save st l h now) ts"
    "\<And>ts. failed (snd (forecast_all_transformers sv l h now st active (Some ts) save))
              = List.map_filter (forecast_failure sv save st l h now) ts"
    using f by (metis bulk_result.select_convs(1) snd_conv, metis bulk_result.select_convs(2) snd_conv)
  have 4: "forecast_unit sv l h now save st u = Inl e \<longrightarrow>
        successful (snd (forecast_all_transformers sv l h now st active (Some (xs @ u # ys)) save))
          = successful (snd (forecast_all_transformers sv l h now st active (Some (xs @ ys)) save))
        \<and> failed (snd (forecast_all_transformers sv l h now st active (Some (xs @ u # ys)) save))
          = failed (snd (forecast_all_transformers sv l h now st active (Some xs) save))
              @ (u, error_str e)
              # failed (snd (forecast_all_transformers sv l h now st active (Some ys) save))"
    by (simp add: fs map_filter_append forecast_ok_def forecast_failure_def)
  from 1 2 3 4 show ?thesis by blast
qed

subsection \<open>Plan narrator\<close>







subsection \<open>The example grid\<close>

lemma ex_fields [simp]:
  "assessment_transformer ex_assessment = ex_source"
  "assessment_forecast ex_assessment = ex_forecast"
  "risk_score ex_assessment = 16 / 25"
  by (simp_all add: ex_assessment_def)

lemma ex_avail: "get_available_capacity ex_state ex_neighbor = 15497 / 100"
  by (simp add: get_available_capacity_def latest_load_def ex_state_def ex_neighbor_def rated_kw_def)

lemma ex_overload: "calculate_overload_kw ex_assessment = 195"
  by (simp add: calculate_overload_kw_def ex_assessment_def ex_source_def ex_forecast_def rated_kw_def)

lemma ex_outgoing: "outgoing_links ex_state ex_source = [ex_link]"
  by (simp add: outgoing_links_def ex_state_def ex_source_def ex_link_def)

lemma ex_neighbors: "get_neighbors ex_state ex_source = [(ex_neighbor, ex_link)]"
  by (simp add: get_neighbors_def outgoing_links_def ex_state_def ex_source_def ex_link_def)

lemma ex_neighbor_load:
  "latest_load ex_state ex_neighbor
     = Some \<lparr>load_transformer = 9, timestamp = 0, load_kw = 25003 / 100,
              load_pct = 5556 / 100, temp_c = None\<rparr>"
  by (simp add: latest_load_def ex_state_def ex_neighbor_def)

lemma ex_transfer: "transfer_amount default_simulator 195 ex_link (15497 / 100) ex_forecast = 15497 / 125"
  by (simp add: transfer_amount_def default_simulator_def ex_link_def ex_forecast_def)

lemma ex_round: "py_round (15497 / 125) 2 = 6199 / 50"
  by (simp add: py_round_def round_half_even_def)

lemma ex_thermal: "calculate_thermal_score ex_state ex_forecast ex_source = 1 / 5"
  by (simp add: calculate_thermal_score_def latest_temp_reading_def ex_state_def ex_source_def)

lemma ex_cascading: "calculate_cascading_score ex_state ex_source = 0"
  by (simp add: calculate_cascading_score_def ex_outgoing neighbor_overloaded_def)
     (simp add: ex_link_def ex_neighbor_load)

lemma ex_peak: "peak_predicted_kw ex_forecast = 600"
  by (simp add: ex_forecast_def)

lemma ex_rated: "rated_kw ex_source = 450"
  by (simp add: ex_source_def rated_kw_def)

lemma ex_overload_after: "calculate_overload_score ((600 - 15497 / 125) / 450 * 100) = 29503 / 37500"
  by (simp add: calculate_overload_score_def)

lemma ex_round_risk: "py_round (weighted_score (29503 / 37500) (1 / 5) 0) 3 = 64 / 125"
  by (simp add: weighted_score_def py_round_def round_half_even_def)

lemma ex_simulate:
  "simulate_transfer ex_state ex_source ex_neighbor (15497 / 125) ex_forecast = Inr (64 / 125)"
  by (simp only: simulate_transfer_def Let_def ex_thermal ex_cascading ex_peak ex_rated
        ex_overload_after ex_round_risk) simp

lemma ex_candidates:
  "candidate_plans ex_state default_simulator ex_assessment 195 [(ex_neighbor, ex_link)] = Inr [ex_plan]"
  by (simp add: Let_def ex_avail ex_transfer ex_simulate ex_plan_def)

lemma ex_generate:
  "0 < k \<Longrightarrow> generate_plans ex_state default_simulator ex_assessment k = Inr [ex_plan]"
  by (simp add: generate_plans_def Let_def ex_overload ex_neighbors ex_candidates sorted_reverse_def
        py_slice_to_def del: candidate_plans.simps)


lemma ex_scored: "score_transformer ex_state ex_source ex_forecast = Inr ex_assessment"
  by (simp add: score_transformer_def Let_def ex_thermal ex_cascading)
     (simp add: ex_forecast_def ex_assessment_def calculate_overload_score_def weighted_score_def
        save_assessment_def calculate_assessment_confidence_def py_round_def round_half_even_def)

lemma ex_plan_transfer: "transfer_kw (plan_json ex_plan) = Some (6199 / 50)"
  by (simp add: ex_plan_def build_plan_def ex_round)

text \<open>C7 at the two boundaries and just below the first.\<close>

theorem save_assessment_level_witness:
  "risk_level (save_assessment (ex_assessment\<lparr>risk_level := None, risk_score := 3 / 10\<rparr>))
     = Some ''MEDIUM''
   \<and> risk_level (save_assessment (ex_assessment\<lparr>risk_level := Some [], risk_score := 7 / 10\<rparr>))
     = Some ''HIGH''
   \<and> risk_level (save_assessment (ex_assessment\<lparr>risk_level := None, risk_score := 29 / 100\<rparr>))
     = Some ''LOW''"
  using save_assessment_level [of "ex_assessment\<lparr>risk_level := None, risk_score := 3 / 10\<rparr>"]
        save_assessment_level [of "ex_assessment\<lparr>risk_level := Some [], risk_score := 7 / 10\<rparr>"]
        save_assessment_level [of "ex_assessment\<lparr>risk_level := None, risk_score := 29 / 100\<rparr>"]
  by simp

text \<open>C1 on the example grid, where the one plan goes to T-09.\<close>

theorem generate_plans_transfer_bounds_witness:
  "\<exists>t. 50 \<le> t \<and> transfer_kw (plan_json ex_plan) = Some (py_round t 2)
       \<and> expected_load_reduction_kw ex_plan = t \<and> py_round t 2 \<le> t + 1 / 200"
proof -
  have gen: "generate_plans ex_state default_simulator ex_assessment 3 = Inr [ex_plan]"
    by (rule ex_generate) simp
  have mem: "ex_plan \<in> set [ex_plan]"
    by simp
  from generate_plans_transfer_bounds [OF gen mem] show ?thesis
    by blast
qed

text \<open>
  C1 as stated fails for the recorded value: on the example grid the least of the four
  limits is 123.976 kW (the capacity limit, 154.97 \<times> 0.8) and the plan records
  123.98 kW.
\<close>

theorem recorded_transfer_exceeds_limit:
  "generate_plans ex_state default_simulator ex_assessment 3 = Inr [ex_plan]
   \<and> transfer_kw (plan_json ex_plan) = Some (6199 / 50)
   \<and> min (calculate_overload_kw ex_assessment)
        (min (max_transfer_kw ex_link)
           (min (get_available_capacity ex_state ex_neighbor * (8 / 10))
              (peak_predicted_kw ex_forecast * (3 / 10)))) = 15497 / 125
   \<and> (15497 / 125 :: real) < 6199 / 50"
  by (simp add: ex_generate ex_overload ex_avail ex_peak ex_plan_transfer ex_link_def)



lemma ex_score_unit_neighbor:
  "score_unit ex_state ex_neighbor = Inl (ValueError ''No forecast available for T-09'')"
  by (simp add: score_unit_def latest_forecast_def ex_state_def ex_neighbor_def ex_forecast_def)



text \<open>
  C6 at a reading of 0.0 degrees: the unit's most recent temperature reading exists and
  is 0, the piecewise map of C6 gives 0 for it, and the code returns the no-reading value
  0.20.
\<close>

theorem thermal_score_zero_reading:
  "latest_temp_reading ex_cold_state ex_source
     = Some \<lparr>load_transformer = 7, timestamp = 0, load_kw = 300, load_pct = 6667 / 100,
              temp_c = Some 0\<rparr>
   \<and> calculate_thermal_score ex_cold_state ex_forecast ex_source = 2 / 10
   \<and> min (temp_score 0 * age_factor (now_year ex_cold_state - install_year ex_source)
            * cooling_factor (cooling_type ex_source)) 1 = 0"
  by (simp add: calculate_thermal_score_def latest_temp_reading_def ex_cold_state_def
        ex_source_def temp_score_def del: not_None_eq)

subsection \<open>The grid with two neighbours\<close>

lemma ex2_outgoing: "outgoing_links ex_state2 ex_source = [ex_link2, ex_link]"
  by (simp add: outgoing_links_def ex_state2_def ex_source_def ex_link_def ex_link2_def)

lemma ex2_neighbors:
  "get_neighbors ex_state2 ex_source = [(ex_neighbor2, ex_link2), (ex_neighbor, ex_link)]"
  by (simp add: get_neighbors_def ex2_outgoing) (simp add: ex_link_def ex_link2_def)

lemma ex2_avail1: "get_available_capacity ex_state2 ex_neighbor = 15497 / 100"
  by (simp add: get_available_capacity_def latest_load_def ex_state2_def ex_neighbor_def rated_kw_def)

lemma ex2_avail2: "get_available_capacity ex_state2 ex_neighbor2 = 90"
  by (simp add: get_available_capacity_def latest_load_def latest_forecast_def ex_state2_def
        ex_neighbor2_def ex_forecast_def rated_kw_def)

lemma ex2_transfer2: "transfer_amount default_simulator 195 ex_link2 90 ex_forecast = 72"
  by (simp add: transfer_amount_def default_simulator_def ex_link2_def ex_forecast_def)

lemma ex2_thermal: "calculate_thermal_score ex_state2 ex_forecast ex_source = 1 / 5"
  by (simp add: calculate_thermal_score_def latest_temp_reading_def ex_state2_def ex_source_def)

lemma ex2_cascading: "calculate_cascading_score ex_state2 ex_source = 0"
  by (simp add: calculate_cascading_score_def ex2_outgoing neighbor_overloaded_def)
     (simp add: ex_link_def ex_link2_def latest_load_def ex_state2_def ex_neighbor_def
        ex_neighbor2_def)

lemma ex2_overload_after2: "calculate_overload_score ((600 - 72) / 450 * 100) = 24 / 25"
  by (simp add: calculate_overload_score_def)

lemma ex2_round_risk2: "py_round (weighted_score (24 / 25) (1 / 5) 0) 3 = 77 / 125"
  by (simp add: weighted_score_def py_round_def round_half_even_def)

lemma ex2_simulate1:
  "simulate_transfer ex_state2 ex_source ex_neighbor (15497 / 125) ex_forecast = Inr (64 / 125)"
  by (simp only: simulate_transfer_def Let_def ex2_thermal ex2_cascading ex_peak ex_rated
        ex_overload_after ex_round_risk) simp

lemma ex2_simulate2:
  "simulate_transfer ex_state2 ex_source ex_neighbor2 72 ex_forecast = Inr (77 / 125)"
  by (simp only: simulate_transfer_def Let_def ex2_thermal ex2_cascading ex_peak ex_rated
        ex2_overload_after2 ex2_round_risk2) simp

lemma ex2_candidates:
  "candidate_plans ex_state2 default_simulator ex_assessment 195
     [(ex_neighbor2, ex_link2), (ex_neighbor, ex_link)] = Inr [ex_plan2, ex_plan]"
  by (simp add: Let_def ex2_avail1 ex2_avail2 ex_transfer ex2_transfer2 ex2_simulate1
        ex2_simulate2 ex_plan_def ex_plan2_def)

lemma ex2_keys: "risk_reduction_key ex_plan = 16 / 125" "risk_reduction_key ex_plan2 = 3 / 125"
  by (simp_all add: risk_reduction_key_def ex_plan_def ex_plan2_def build_plan_def
        py_round_def round_half_even_def)

lemma ex2_sorted: "sorted_reverse risk_reduction_key [ex_plan2, ex_plan] = [ex_plan, ex_plan2]"
  by (simp add: sorted_reverse_def ex2_keys)

lemma ex2_generate:
  "generate_plans ex_state2 default_simulator ex_assessment k
     = Inr (py_slice_to [ex_plan, ex_plan2] k)"
  by (simp add: generate_plans_def Let_def ex_overload ex2_neighbors ex2_candidates ex2_sorted
        del: candidate_plans.simps)

text \<open>
  On the grid with two neighbours the link to T-10 comes first, the plan for T-09
  reduces the risk more and is ranked first.
\<close>

lemma generate_plans_ranked_example:
  "generate_plans ex_state2 default_simulator ex_assessment 3 = Inr [ex_plan, ex_plan2]
   \<and> sorted_wrt (\<lambda>p q. risk_reduction_key q \<le> risk_reduction_key p) [ex_plan, ex_plan2]
   \<and> int (length [ex_plan, ex_plan2]) \<le> 3"
proof -
  have gen: "generate_plans ex_state2 default_simulator ex_assessment 3 = Inr [ex_plan, ex_plan2]"
    by (simp add: ex2_generate py_slice_to_def)
  from generate_plans_ranked [OF gen] gen show ?thesis
    by simp
qed

text \<open>
  C4 at \<open>max_plans = -1\<close>, a value the \<open>generate\<close> endpoint passes on from the request
  body as it comes. The grid has two viable neighbours; the slice \<open>ranked_plans[:-1]\<close>
  drops the last plan of the ranking and returns the other: one plan, where "at most
  \<open>max_plans\<close>" (and the parameter's documentation, the maximum number of plans to
  generate) allows none.
\<close>

theorem negative_max_plans_counterexample:
  "generate_plans ex_state2 default_simulator ex_assessment (- 1) = Inr [ex_plan]
   \<and> \<not> int (length [ex_plan]) \<le> - 1"
  by (simp add: ex2_generate py_slice_to_def)

subsection \<open>The very large unit\<close>

lemma ex_big_fields [simp]:
  "assessment_transformer ex_big_assessment = ex_big_source"
  "assessment_forecast ex_big_assessment = ex_big_forecast"
  "risk_score ex_big_assessment = 40 / 1000"
  by (simp_all add: ex_big_assessment_def)

lemma ex_big_thermal: "calculate_thermal_score ex_big_state ex_big_forecast ex_big_source = 1011 / 5000"
  by (simp add: calculate_thermal_score_def latest_temp_reading_def ex_big_state_def
        ex_big_source_def temp_score_def age_factor_def cooling_factor_def del: not_None_eq)

lemma ex_big_outgoing: "outgoing_links ex_big_state ex_big_source = [ex_big_link]"
  by (simp add: outgoing_links_def ex_big_state_def ex_big_source_def ex_big_link_def)

lemma ex_big_cascading: "calculate_cascading_score ex_big_state ex_big_source = 0"
  by (simp add: calculate_cascading_score_def ex_big_outgoing neighbor_overloaded_def)
     (simp add: ex_big_link_def latest_load_def ex_big_state_def ex_neighbor_def)

lemma ex_big_peak: "peak_predicted_kw ex_big_forecast = 16200720"
  "peak_predicted_pct ex_big_forecast = 90"
  by (simp_all add: ex_big_forecast_def)

lemma ex_big_rated: "rated_kw ex_big_source = 18000000"
  by (simp add: ex_big_source_def rated_kw_def)

lemma ex_big_overload_before: "calculate_overload_score 90 = 0"
  by (simp add: calculate_overload_score_def)

lemma ex_big_round_before: "py_round (weighted_score 0 (1011 / 5000) 0) 3 = 40 / 1000"
  by (simp add: weighted_score_def py_round_def round_half_even_def)

lemma ex_big_overload_after:
  "calculate_overload_score ((16200720 - 50) / 18000000 * 100) = 135067 / 450000"
  by (simp add: calculate_overload_score_def)

lemma ex_big_round_after: "py_round (weighted_score (135067 / 450000) (1011 / 5000) 0) 3 = 221 / 1000"
  by (simp add: weighted_score_def py_round_def round_half_even_def)

lemma ex_big_scored:
  "score_transformer ex_big_state ex_big_source ex_big_forecast = Inr ex_big_assessment"
  by (simp add: score_transformer_def Let_def ex_big_thermal ex_big_cascading ex_big_peak
        ex_big_overload_before ex_big_round_before)
     (simp add: ex_big_forecast_def ex_big_assessment_def save_assessment_def
        calculate_assessment_confidence_def py_round_def round_half_even_def)

lemma ex_big_simulate:
  "simulate_transfer ex_big_state ex_big_source ex_neighbor 50 ex_big_forecast = Inr (221 / 1000)"
  by (simp only: simulate_transfer_def Let_def ex_big_thermal ex_big_cascading ex_big_peak
        ex_big_rated ex_big_overload_after ex_big_round_after) simp

lemma ex_big_avail: "get_available_capacity ex_big_state ex_neighbor = 15497 / 100"
  by (simp add: get_available_capacity_def latest_load_def ex_big_state_def ex_neighbor_def
        rated_kw_def)

lemma ex_big_overload: "calculate_overload_kw ex_big_assessment = 720"
  by (simp add: calculate_overload_kw_def ex_big_peak ex_big_rated) (simp add: ex_big_source_def)

lemma ex_big_transfer:
  "transfer_amount default_simulator 720 ex_big_link (15497 / 100) ex_big_forecast = 50"
  by (simp add: transfer_amount_def default_simulator_def ex_big_link_def ex_big_forecast_def)

lemma ex_big_neighbors: "get_neighbors ex_big_state ex_big_source = [(ex_neighbor, ex_big_link)]"
  by (simp add: get_neighbors_def ex_big_outgoing) (simp add: ex_big_link_def)

lemma ex_big_candidates:
  "candidate_plans ex_big_state default_simulator ex_big_assessment 720
     [(ex_neighbor, ex_big_link)] = Inr [ex_big_plan]"
  by (simp add: Let_def ex_big_avail ex_big_transfer ex_big_simulate ex_big_plan_def)

lemma ex_big_generate:
  "generate_plans ex_big_state default_simulator ex_big_assessment 3 = Inr [ex_big_plan]"
  by (simp add: generate_plans_def Let_def ex_big_overload ex_big_neighbors ex_big_candidates
        sorted_reverse_def py_slice_to_def del: candidate_plans.simps)

text \<open>
  C10 on the very large unit. The forecaster records the peak of 16 200 720 kW and its
  percentage 90.004 rounded to 90.00; \<open>score_transformer\<close> scores the recorded 90.00,
  which is not above the 90% threshold (overload component 0, score 0.040); the
  simulation recomputes the percentage from the recorded kW after the 50 kW transfer,
  90.0037, which is above it (overload component 0.30, score 0.221). Store and forecast
  are the same in both computations, and the plan records \<open>risk_after > risk_before\<close>
  and a \<open>risk_reduction\<close> of -0.181.
\<close>

theorem risk_after_exceeds_risk_before:
  "score_transformer ex_big_state ex_big_source ex_big_forecast = Inr ex_big_assessment
   \<and> peak_predicted_kw ex_big_forecast = py_round 16200720 2
   \<and> peak_predicted_pct ex_big_forecast = py_round (16200720 / rated_kw ex_big_source * 100) 2
   \<and> generate_plans ex_big_state default_simulator ex_big_assessment 3 = Inr [ex_big_plan]
   \<and> risk_before (plan_json ex_big_plan) = Some (40 / 1000)
   \<and> risk_after (plan_json ex_big_plan) = Some (221 / 1000)
   \<and> risk_reduction (plan_json ex_big_plan) = Some (- 181 / 1000)
   \<and> expected_load_reduction_kw ex_big_plan = 50"
  by (simp add: ex_big_scored ex_big_generate ex_big_peak ex_big_rated)
     (simp add: ex_big_plan_def build_plan_def py_round_def round_half_even_def)

subsection \<open>The example telemetry\<close>

lemma ex_history_set:
  "r \<in> set ex_history \<Longrightarrow>
     load_transformer r = 7 \<and> load_kw r = 10001 / 100 \<and> temp_c r = None \<and> 0 \<le> timestamp r"
  by (auto simp: ex_history_def)

lemma ex_history_length: "length ex_history = 24"
  by (simp add: ex_history_def)

lemma ex_history_selected:
  "c \<le> 4800 \<Longrightarrow>
     filter (\<lambda>r. load_transformer r = transformer_id ex_source \<and> c \<le> timestamp r) ex_history
       = ex_history"
  by (rule filter_True) (auto simp: ex_history_def ex_source_def)

lemma ex_hist_set: "set ex_hist = set ex_history"
  by (simp add: ex_hist_def historical_data_of_def ex_history_state_def ex_history_selected)

lemma ex_hist_length: "length ex_hist = 24"
  by (simp add: ex_hist_def historical_data_of_def ex_history_state_def ex_history_selected
        ex_history_length)

lemma ex_pattern: "hourly_pattern ex_hist hour = 10001 / 100"
proof -
  let ?sel = "map load_kw (filter (\<lambda>reading. hour_of (timestamp reading) = hour) ex_hist)"
  have ne: "map load_kw ex_hist \<noteq> []"
    using ex_hist_length by auto
  have all: "np_mean (map load_kw ex_hist) = 10001 / 100"
  proof (rule np_mean_const [OF ne])
    fix x assume "x \<in> set (map load_kw ex_hist)"
    then show "x = 10001 / 100"
      using ex_history_set by (auto simp: ex_hist_set)
  qed
  have sub: "np_mean ?sel = 10001 / 100" if "?sel \<noteq> []"
  proof (rule np_mean_const [OF that])
    fix x assume "x \<in> set ?sel"
    then show "x = 10001 / 100"
      using ex_history_set by (auto simp: ex_hist_set)
  qed
  show ?thesis
  proof (cases "?sel = []")
    case True
    then show ?thesis
      using ne all by (simp add: hourly_pattern_def Let_def)
  next
    case False
    then show ?thesis
      using sub by (simp add: hourly_pattern_def Let_def)
  qed
qed

lemma ex_temps: "truthy_temps ex_hist = []"
  using ex_history_set by (auto simp: truthy_temps_def ex_hist_set)

lemma ex_kw_friday: "predicted_kw_at ex_source ex_hist 6240 = 10001 / 100"
  by (simp add: predicted_kw_at_def Let_def hourly_patterns_get_def ex_pattern
        estimate_temperature_factor_def ex_temps hour_of_def weekday_of_def)

lemma ex_kw_saturday: "predicted_kw_at ex_source ex_hist 7680 = 170017 / 2000"
  by (simp add: predicted_kw_at_def Let_def hourly_patterns_get_def ex_pattern
        estimate_temperature_factor_def ex_temps hour_of_def weekday_of_def)

lemma ex_forecast_predictions:
  "\<exists>f. forecast ex_history_state 7 6240 ex_source 25 = Inr f
       \<and> predictions f = map (\<lambda>k. prediction_entry ex_source ex_hist (6240 + 60 * int k)) [0..<25]"
proof -
  obtain f where f: "forecast ex_history_state 7 6240 ex_source 25 = Inr f"
    using ex_hist_length by (simp add: forecast_def Let_def ex_hist_def [symmetric])
  from forecast_predictions [OF f] f show ?thesis
    by (simp add: ex_hist_def)
qed

text \<open>
  C9 for the forecast made on Friday 08:00 from the example telemetry: the entries for
  Saturday 08:00 (offset 24) and Friday 08:00 (offset 0).
\<close>

theorem weekend_prediction_scaled_witness:
  "\<exists>f. forecast ex_history_state 7 6240 ex_source 25 = Inr f
       \<and> weekday_of (pred_timestamp (predictions f ! 24)) = 5
       \<and> weekday_of (pred_timestamp (predictions f ! 0)) = 4
       \<and> \<bar>predicted_kw (predictions f ! 24) - 85 / 100 * predicted_kw (predictions f ! 0)\<bar>
           \<le> 37 / 4000"
proof -
  obtain f where f: "forecast ex_history_state 7 6240 ex_source 25 = Inr f"
    using ex_forecast_predictions by blast
  have we: "weekday_of (6240 + 60 * int 24) = 5 \<or> weekday_of (6240 + 60 * int 24) = 6"
    by (simp add: weekday_of_def)
  have wd: "weekday_of (6240 + 60 * int 0) \<noteq> 5 \<and> weekday_of (6240 + 60 * int 0) \<noteq> 6"
    by (simp add: weekday_of_def)
  have hr: "hour_of (6240 + 60 * int 24) = hour_of (6240 + 60 * int 0)"
    by (simp add: hour_of_def)
  have w5: "weekday_of (6240 + 60 * int 24) = 5" and w4: "weekday_of (6240 + 60 * int 0) = 4"
    by (simp_all add: weekday_of_def)
  from weekend_prediction_scaled [OF f _ _ we wd hr] w5 w4 f show ?thesis
    by auto
qed

text \<open>
  C9 as stated fails for the recorded values: with an hourly mean of 100.01 kW the
  forecast made on Friday 08:00 records 100.01 for Friday 08:00 and 85.01 for Saturday
  08:00, and 0.85 \<times> 100.01 = 85.0085.
\<close>

theorem recorded_weekend_prediction_not_scaled:
  "\<exists>f. forecast ex_history_state 7 6240 ex_source 25 = Inr f
       \<and> weekday_of (pred_timestamp (predictions f ! 0)) = 4
       \<and> weekday_of (pred_timestamp (predictions f ! 24)) = 5
       \<and> hour_of (pred_timestamp (predictions f ! 0)) = 8
       \<and> hour_of (pred_timestamp (predictions f ! 24)) = 8
       \<and> predicted_kw (predictions f ! 0) = 10001 / 100
       \<and> predicted_kw (predictions f ! 24) = 8501 / 100
       \<and> (8501 / 100 :: real) \<noteq> 85 / 100 * (10001 / 100)"
proof -
  obtain f where f: "forecast ex_history_state 7 6240 ex_source 25 = Inr f"
    "predictions f = map (\<lambda>k. prediction_entry ex_source ex_hist (6240 + 60 * int k)) [0..<25]"
    using ex_forecast_predictions by blast
  have p0: "predictions f ! 0 = prediction_entry ex_source ex_hist 6240"
    unfolding f(2) by (subst nth_map) simp_all
  have p24: "predictions f ! 24 = prediction_entry ex_source ex_hist 7680"
    unfolding f(2) by (subst nth_map) simp_all
  have r0: "py_round (10001 / 100) 2 = 10001 / 100"
    by (simp add: py_round_def round_half_even_def)
  have r24: "py_round (170017 / 2000) 2 = 8501 / 100"
    by (simp add: py_round_def round_half_even_def)
  show ?thesis
    using f(1)
    by (simp add: p0 p24 prediction_entry_def ex_kw_friday ex_kw_saturday r0 r24
          hour_of_def weekday_of_def)
qed

lemma ex_zero_rated_refused:
  "forecast_unit ex_store 7 25 6240 True ex_history_state ex_zero_rated
     = Inl (PyException ''non-finite value in a numeric column'')"
proof -
  have "historical_data_of ex_history_state 7 6240 ex_zero_rated = ex_hist"
    by (simp add: ex_hist_def historical_data_of_def ex_zero_rated_def ex_source_def)
  then obtain f where "forecast ex_history_state 7 6240 ex_zero_rated 25 = Inr f"
    using ex_hist_length by (simp add: forecast_def Let_def)
  then show ?thesis
    by (simp add: forecast_unit_def ex_store_def rated_kw_def ex_zero_rated_def)
qed

text \<open>
  C8 on the example grids. Scoring: T-09 has no forecast and fails, T-07 is scored as
  without it. Forecasting with \<open>save\<close> set: the forecast of the zero-rated unit is
  computed and refused by the store; the unit is recorded as failed and T-07 is forecast
  as without it.
\<close>

theorem bulk_stages_isolate_failures_witness:
  "successful (score_all_transformers ex_state [] (Some ([] @ ex_neighbor # [ex_source])))
     = successful (score_all_transformers ex_state [] (Some ([] @ [ex_source])))
   \<and> failed (score_all_transformers ex_state [] (Some ([] @ ex_neighbor # [ex_source])))
     = failed (score_all_transformers ex_state [] (Some []))
         @ (ex_neighbor, error_str (ValueError ''No forecast available for T-09''))
         # failed (score_all_transformers ex_state [] (Some [ex_source]))
   \<and> successful (snd (forecast_all_transformers ex_store 7 25 6240 ex_history_state []
                        (Some ([ex_source] @ ex_zero_rated # [])) True))
     = successful (snd (forecast_all_transformers ex_store 7 25 6240 ex_history_state []
                          (Some ([ex_source] @ [])) True))
   \<and> failed (snd (forecast_all_transformers ex_store 7 25 6240 ex_history_state []
                    (Some ([ex_source] @ ex_zero_rated # [])) True))
     = failed (snd (forecast_all_transformers ex_store 7 25 6240 ex_history_state []
                      (Some [ex_source]) True))
         @ (ex_zero_rated, error_str (PyException ''non-finite value in a numeric column''))
         # failed (snd (forecast_all_transformers ex_store 7 25 6240 ex_history_state []
                          (Some []) True))"
  using bulk_stages_isolate_failures
          [where st = ex_state and active = "[]" and u = ex_neighbor
             and e = "ValueError ''No forecast available for T-09''"
             and xs = "[]" and ys = "[ex_source]"]
        bulk_stages_isolate_failures
          [where st = ex_history_state and active = "[]" and u = ex_zero_rated
             and sv = ex_store and l = 7 and h = 25 and now = 6240 and save = True
             and e = "PyException ''non-finite value in a numeric column''"
             and xs = "[ex_source]" and ys = "[]"]
        ex_score_unit_neighbor ex_zero_rated_refused
  by blast

end
